theory Spec2Isabelle
  imports Complex_Main "HOL-Library.Product_Lexorder" "HOL-Library.List_Lexorder"
    "HOL-Library.Char_ord" "HOL-Library.Multiset"
begin

section \<open>SkyHamSat: pass prediction, sampling and Doppler shift\<close>

text \<open>
  The theory embeds the computational core of \<^verbatim>\<open>SkyHamSat.py\<close> and the constructor and
  coordinate transforms of \<^verbatim>\<open>graphqt5.py\<close>.

  Conventions of the embedding:
  \<^item> Python floats (Julian dates, angles, velocities, frequencies) are real numbers. The
    rounding of float arithmetic is modelled where it decides the control flow, which is
    the loop of \<^verbatim>\<open>create_pass_line\<close>; elsewhere a value is the exact one. A numpy
    division by a zero norm, which yields nan or an infinity without raising, is the value
    \<open>None\<close> of a \<open>real option\<close>.
  \<^item> An exception is the \<open>Inl\<close> branch of a sum type.
  \<^item> The skyfield library (\<^verbatim>\<open>find_events\<close>, \<^verbatim>\<open>at\<close>, \<^verbatim>\<open>altaz\<close>), the clock, Python's
    \<^verbatim>\<open>int()\<close> and \<^verbatim>\<open>float()\<close> on strings and the formatting of numbers are not
    part of the repository: they are fields of the record \<open>env\<close> or arguments.
\<close>

subsection \<open>Errors\<close>

datatype error = KeyError | ValueError | IndexError | ZeroDivisionError | OtherError

text \<open>\<^verbatim>\<open>try: ... except ValueError: <fallback>\<close>: only a ValueError is replaced.\<close>

definition except_ValueError :: "error + 'a \<Rightarrow> 'a \<Rightarrow> error + 'a" where
  "except_ValueError r fallback = (case r of Inl ValueError \<Rightarrow> Inr fallback | _ \<Rightarrow> r)"

subsection \<open>Satellite tables and the skyfield interface\<close>

text \<open>
  A skyfield \<^verbatim>\<open>Angle\<close>, built as \<^verbatim>\<open>Angle(degrees=d)\<close> and read through \<^verbatim>\<open>.degrees\<close> or
  \<^verbatim>\<open>.radians\<close>.
\<close>

datatype angle = Angle (degrees: real)

definition radians :: "angle \<Rightarrow> real" where
  "radians a = degrees a * pi / 180"

type_synonym vec3 = "real \<times> real \<times> real"

text \<open>
  An entry of \<^verbatim>\<open>self.satellites\<close>, the dictionary read from \<^verbatim>\<open>satslist.json\<close>. The
  catalogue number is stored as a string.
\<close>

record satellite_data =
  Satellite :: string
  Number :: string
  Transponder_Uplink :: bool
  Uplinks :: bool
  Downlinks :: bool
  Beacons :: bool
  Modes :: "string list"

text \<open>
  What \<^verbatim>\<open>(satellite - home).at(t)\<close> gives: \<^verbatim>\<open>position.km\<close>, \<^verbatim>\<open>velocity.km_per_s\<close> and
  the result of \<^verbatim>\<open>altaz()\<close>.
\<close>

record topocentric =
  position_km :: vec3
  velocity_km_per_s :: vec3
  altaz :: "angle \<times> angle \<times> real"

text \<open>
  The tables of the application and the functions it calls but does not define:
  \<^verbatim>\<open>self.satellites\<close> in the order of the dictionary, \<^verbatim>\<open>self.by_number\<close>, Python's
  \<^verbatim>\<open>int()\<close> on a string (\<open>None\<close> when it raises ValueError), the topocentric transform
  at a Julian date, and \<^verbatim>\<open>satellite.find_events(home, t0, t1, altitude_degrees=0.0)\<close>,
  which returns the event times and the event codes. \<open>'s\<close> is the type of the satellite
  objects.
\<close>

record 's env =
  satellites :: "(string \<times> satellite_data) list"
  by_number :: "int \<Rightarrow> 's option"
  py_int :: "string \<Rightarrow> int option"
  difference_at :: "'s \<Rightarrow> real \<Rightarrow> error + topocentric"
  find_events :: "'s \<Rightarrow> real \<Rightarrow> real \<Rightarrow> error + (real list \<times> int list)"

text \<open>
  The two lines that open the \<^verbatim>\<open>try\<close> blocks of \<^verbatim>\<open>get_alt_azimuth\<close> and
  \<^verbatim>\<open>get_next_passes\<close>:
  \<^verbatim>\<open>satellite_number = self.satellites[satellite_name]['Number']\<close> and
  \<^verbatim>\<open>satellite = self.by_number[int(satellite_number)]\<close>. A missing key raises KeyError, a
  number that does not convert raises ValueError.
\<close>

definition lookup_satellite :: "'s env \<Rightarrow> string \<Rightarrow> error + 's" where
  "lookup_satellite e satellite_name =
     (case map_of (satellites e) satellite_name of
        None \<Rightarrow> Inl KeyError
      | Some d \<Rightarrow>
          (case py_int e (Number d) of
             None \<Rightarrow> Inl ValueError
           | Some n \<Rightarrow>
               (case by_number e n of
                  None \<Rightarrow> Inl KeyError
                | Some satellite \<Rightarrow> Inr satellite)))"

text \<open>\<^verbatim>\<open>np.dot\<close> and \<^verbatim>\<open>np.linalg.norm\<close> on vectors of three components.\<close>

definition dot :: "vec3 \<Rightarrow> vec3 \<Rightarrow> real" where
  "dot a b = (case a of (a1, a2, a3) \<Rightarrow> case b of (b1, b2, b3) \<Rightarrow> a1 * b1 + a2 * b2 + a3 * b3)"

definition linalg_norm :: "vec3 \<Rightarrow> real" where
  "linalg_norm a = (case a of (a1, a2, a3) \<Rightarrow> sqrt (a1 * a1 + a2 * a2 + a3 * a3))"

text \<open>
  \<^verbatim>\<open>d = np.dot(velocity, pos) / np.linalg.norm(pos)\<close>. With a zero norm numpy returns nan
  or an infinity and does not raise: that is \<open>None\<close>.
\<close>

definition slant_velocity_km_s :: "vec3 \<Rightarrow> vec3 \<Rightarrow> real option" where
  "slant_velocity_km_s velocity pos =
     (if linalg_norm pos = 0 then None else Some (dot velocity pos / linalg_norm pos))"

text \<open>
  \<^verbatim>\<open>get_alt_azimuth\<close>. Only the lookup is inside the \<^verbatim>\<open>try\<close> block, whose handler
  returns \<^verbatim>\<open>Angle(degrees=0), Angle(degrees=0), 0\<close>; the transform comes after it.
\<close>

definition get_alt_azimuth :: "'s env \<Rightarrow> real \<Rightarrow> string \<Rightarrow> error + (angle \<times> angle \<times> real option)" where
  "get_alt_azimuth e calc_time satellite_name =
     (case lookup_satellite e satellite_name of
        Inl ValueError \<Rightarrow> Inr (Angle 0, Angle 0, Some 0)
      | Inl err \<Rightarrow> Inl err
      | Inr satellite \<Rightarrow>
          (case difference_at e satellite calc_time of
             Inl err \<Rightarrow> Inl err
           | Inr topo \<Rightarrow>
               (case altaz topo of (alt, az, distance) \<Rightarrow>
                  Inr (alt, az, slant_velocity_km_s (velocity_km_per_s topo) (position_km topo)))))"

text \<open>
  \<^verbatim>\<open>('rise', 'transit', 'set')[event]\<close>, with Python's indexing of a tuple: a negative
  index counts from the end, an index out of range raises IndexError.
\<close>

definition event_name :: "int \<Rightarrow> error + string" where
  "event_name event =
     (let names = [''rise'', ''transit'', ''set''];
          n = int (length names);
          j = (if event < 0 then n + event else event)
      in if 0 \<le> j \<and> j < n then Inr (names ! nat j) else Inl IndexError)"

text \<open>
  The loop \<^verbatim>\<open>for ti, event in zip(event_times_ts, events)\<close> of \<^verbatim>\<open>get_next_passes\<close>,
  with its variables \<^verbatim>\<open>passes\<close> and \<^verbatim>\<open>event_list\<close>.
\<close>

fun event_loop :: "int \<Rightarrow> int \<Rightarrow> (real \<times> int) list \<Rightarrow> (real \<times> string) list
    \<Rightarrow> error + (real \<times> string) list" where
  "event_loop number_of_passes passes [] event_list = Inr event_list"
| "event_loop number_of_passes passes ((ti, event) # rest) event_list =
     (if passes \<ge> number_of_passes then Inr event_list
      else case event_name event of
             Inl err \<Rightarrow> Inl err
           | Inr name \<Rightarrow>
               event_loop number_of_passes (if name = ''set'' then passes + 1 else passes)
                 rest (event_list @ [(ti, name)]))"

text \<open>
  \<^verbatim>\<open>get_next_passes\<close>; \<open>now_ts\<close> is the reading of \<^verbatim>\<open>ts.now()\<close>, and the window ends one
  day later. The whole body is inside the \<^verbatim>\<open>try\<close> block, whose handler sets
  \<^verbatim>\<open>event_list = []\<close>.
\<close>

definition get_next_passes :: "'s env \<Rightarrow> real \<Rightarrow> string \<Rightarrow> int \<Rightarrow> error + (real \<times> string) list" where
  "get_next_passes e now_ts satellite_name number_of_passes =
     except_ValueError
       (case lookup_satellite e satellite_name of
          Inl err \<Rightarrow> Inl err
        | Inr satellite \<Rightarrow>
            (case find_events e satellite now_ts (now_ts + 1) of
               Inl err \<Rightarrow> Inl err
             | Inr (event_times_ts, events) \<Rightarrow>
                 event_loop number_of_passes 0 (zip event_times_ts events) []))
       []"

subsection \<open>Floating-point arithmetic\<close>

text \<open>
  Where the rounding of a float decides what the program does, the arithmetic of Python's
  floats is written out: an operation returns the exact result rounded to the nearest
  number with a significand of 53 bits, ties to the even significand (IEEE 754 binary64,
  round to nearest even). Overflow and subnormal numbers are not modelled; Julian dates
  and steps of seconds are far from both.
\<close>

definition round_half_even :: "real \<Rightarrow> int" where
  "round_half_even x =
     (let f = \<lfloor>x\<rfloor>; d = x - of_int f
      in if d < 1 / 2 then f else if d > 1 / 2 then f + 1 else if even f then f else f + 1)"

text \<open>The exponent \<open>e\<close> with \<open>2 ^ e \<le> \<bar>x\<bar> < 2 ^ (e + 1)\<close>, for \<open>x\<close> other than 0.\<close>

definition binade :: "real \<Rightarrow> int" where
  "binade x = \<lfloor>log 2 \<bar>x\<bar>\<rfloor>"

definition round_double :: "real \<Rightarrow> real" where
  "round_double x =
     (if x = 0 then 0
      else let u = 2 powi (binade x - 52) in of_int (round_half_even (x / u)) * u)"

definition float_add :: "real \<Rightarrow> real \<Rightarrow> real" where
  "float_add a b = round_double (a + b)"

definition float_mul :: "real \<Rightarrow> real \<Rightarrow> real" where
  "float_mul a b = round_double (a * b)"

definition float_div :: "real \<Rightarrow> real \<Rightarrow> real" where
  "float_div a b = round_double (a / b)"

subsection \<open>Sampling a pass (\<^verbatim>\<open>create_pass_line\<close>)\<close>

text \<open>\<^verbatim>\<open>JULIAN_SEC = 1 / 86400\<close>, a float.\<close>

definition JULIAN_SEC :: real where
  "JULIAN_SEC = float_div 1 86400"

text \<open>
  A point of a line, the Python list \<^verbatim>\<open>[alt.degrees, az.radians, colour, size, text]\<close>.
\<close>

record point =
  pt_alt :: real
  pt_az :: real
  pt_colour :: string
  pt_size :: int
  pt_text :: string

text \<open>
  The \<^verbatim>\<open>while\<close> loop of \<^verbatim>\<open>create_pass_line\<close>, with the float arithmetic of
  \<^verbatim>\<open>calc_time += JULIAN_SEC * interval\<close>. It need not end (a step that is not positive,
  or one that the rounding of the sum absorbs, never reaches the set time), so the result
  is an option and \<open>None\<close> stands for a run without end. \<open>hms t\<close> is the time text \<^verbatim>\<open>f' {calendar[3]:02d}:...'\<close> of the
  calendar of \<open>t\<close>; the variable \<^verbatim>\<open>calendar\<close> is kept as the time it was computed from,
  \<open>None\<close> before the first round.
\<close>

partial_function (option) pass_line_loop ::
  "'s env \<Rightarrow> (real \<Rightarrow> string) \<Rightarrow> string \<Rightarrow> real \<Rightarrow> real \<Rightarrow> string \<Rightarrow> int
     \<Rightarrow> real \<Rightarrow> int \<Rightarrow> point list \<Rightarrow> real option
     \<Rightarrow> (error + point list \<times> real option) option" where
  "pass_line_loop e hms sat setting_tt interval colour text_every_point
       calc_time point_number pass_line calendar =
     (if calc_time < setting_tt then
        (case get_alt_azimuth e calc_time sat of
           Inl err \<Rightarrow> Some (Inl err)
         | Inr (alt, az, velocity) \<Rightarrow>
             pass_line_loop e hms sat setting_tt interval colour text_every_point
               (float_add calc_time (float_mul JULIAN_SEC interval)) (point_number + 1)
               (pass_line @
                  [\<lparr>pt_alt = degrees alt, pt_az = radians az, pt_colour = colour,
                    pt_size = 4,
                    pt_text =
                      (if text_every_point \<noteq> 0 \<and> point_number mod text_every_point = 0
                       then hms calc_time else '''')\<rparr>])
               (Some calc_time))
      else Some (Inr (pass_line, calendar)))"

text \<open>
  \<^verbatim>\<open>create_pass_line\<close>: the loop from the rise time on, then the text of the last point.
  The times are the \<^verbatim>\<open>.tt\<close> values of the arguments.
\<close>

definition create_pass_line ::
  "'s env \<Rightarrow> (real \<Rightarrow> string) \<Rightarrow> string \<Rightarrow> real \<Rightarrow> real \<Rightarrow> real \<Rightarrow> string \<Rightarrow> int
     \<Rightarrow> (error + point list) option" where
  "create_pass_line e hms sat rise_tt setting_tt interval colour text_every_point =
     (case pass_line_loop e hms sat setting_tt interval colour text_every_point rise_tt 0 [] None of
        None \<Rightarrow> None
      | Some (Inl err) \<Rightarrow> Some (Inl err)
      | Some (Inr (pass_line, calendar)) \<Rightarrow>
          (if text_every_point \<noteq> 0 \<and> pass_line \<noteq> [] then
             (case calendar of
                None \<Rightarrow> Some (Inl OtherError)
              | Some t \<Rightarrow>
                  Some (Inr (pass_line[length pass_line - 1 :=
                     (pass_line ! (length pass_line - 1))\<lparr>pt_text := hms t\<rparr>])))
           else Some (Inr pass_line)))"

subsection \<open>Doppler shift (\<^verbatim>\<open>on_auto_update_timer\<close>)\<close>

text \<open>
  \<^verbatim>\<open>doppler_shift_2m = -slant_velocity / 300000 * 145.9e6\<close> and its siblings.
  Python parses \<^verbatim>\<open>-v / 300000 * f * 1e6\<close> as \<^verbatim>\<open>(((-v) / 300000) * f) * 1e6\<close>.
\<close>

definition doppler_shift_2m :: "real \<Rightarrow> real" where
  "doppler_shift_2m slant_velocity = - slant_velocity / 300000 * 145900000"

definition doppler_shift_100 :: "real \<Rightarrow> real" where
  "doppler_shift_100 slant_velocity = - slant_velocity / 300000 * 100000000"

definition doppler_shift_70cm :: "real \<Rightarrow> real" where
  "doppler_shift_70cm slant_velocity = - slant_velocity / 300000 * 436500000"

text \<open>The argument \<open>mhz\<close> is \<^verbatim>\<open>float(self.selected_frequencies.currentText())\<close>.\<close>

definition selected_doppler_shift :: "real \<Rightarrow> real \<Rightarrow> real" where
  "selected_doppler_shift slant_velocity mhz = - slant_velocity / 300000 * mhz * 1000000"

text \<open>
  The loop of \<^verbatim>\<open>on_auto_update_timer\<close> over the filtered satellites. \<open>clock i\<close> is the
  reading of \<^verbatim>\<open>ts.now().tt\<close> in iteration \<open>i\<close>; \<open>selected_mhz\<close> is the result of
  \<^verbatim>\<open>float(self.selected_frequencies.currentText())\<close>, \<open>None\<close> when it raises ValueError;
  \<open>fmt\<close> is the format \<^verbatim>\<open>{:+0.0f}\<close>. The state of the loop is the list
  \<^verbatim>\<open>up_positions\<close> and the text of the label \<^verbatim>\<open>self.doppler\<close>.
\<close>

fun up_positions_loop ::
  "'s env \<Rightarrow> (nat \<Rightarrow> real) \<Rightarrow> string \<Rightarrow> real option \<Rightarrow> (real option \<Rightarrow> string)
     \<Rightarrow> nat \<Rightarrow> satellite_data list \<Rightarrow> point list \<times> string
     \<Rightarrow> error + point list \<times> string" where
  "up_positions_loop e clock selected_satellite selected_mhz fmt i [] st = Inr st"
| "up_positions_loop e clock selected_satellite selected_mhz fmt i (v # vs) (up_positions, doppler) =
     (let sat = Satellite v; calc_time = clock i in
      case get_alt_azimuth e calc_time sat of
        Inl err \<Rightarrow> Inl err
      | Inr (alt, az, slant_velocity) \<Rightarrow>
          if degrees alt > 0 then
            (let up1 = up_positions @
                   [\<lparr>pt_alt = degrees alt, pt_az = radians az, pt_colour = ''grey'',
                     pt_size = 8, pt_text = '' '' @ sat\<rparr>]
             in if sat = selected_satellite then
                  (case selected_mhz of
                     None \<Rightarrow> Inl ValueError
                   | Some mhz \<Rightarrow>
                       up_positions_loop e clock selected_satellite selected_mhz fmt (Suc i) vs
                         (up1 @
                            [\<lparr>pt_alt = degrees alt, pt_az = radians az, pt_colour = ''black'',
                              pt_size = 8,
                              pt_text = '' '' @ sat @ '': 2: ''
                                @ fmt (map_option doppler_shift_2m slant_velocity) @ '', 70: ''
                                @ fmt (map_option doppler_shift_70cm slant_velocity) @ '' Hz ''\<rparr>],
                          fmt (map_option (\<lambda>v. selected_doppler_shift v mhz) slant_velocity)
                            @ '' Hz''))
                else up_positions_loop e clock selected_satellite selected_mhz fmt (Suc i) vs
                       (up1, doppler))
          else up_positions_loop e clock selected_satellite selected_mhz fmt (Suc i) vs
                 (up_positions, doppler))"

subsection \<open>The filter of the check boxes\<close>

record check_boxes =
  checkBoxTransponder :: bool
  checkBoxUplink :: bool
  checkBoxDownlink :: bool
  checkBoxBeacon :: bool
  comboBoxMode :: string

text \<open>
  The generator \<^verbatim>\<open>satellites_filtered_by_check_boxes\<close> as the list of what it yields, in
  the order of the dictionary. The fields \<open>Transponder_Uplink\<close>, \<open>Uplinks\<close>, \<open>Downlinks\<close>
  and \<open>Beacons\<close> of a satellite hold the truth value Python gives the stored entry.
\<close>

definition satellites_filtered_by_check_boxes ::
  "'s env \<Rightarrow> check_boxes \<Rightarrow> bool \<Rightarrow> satellite_data list" where
  "satellites_filtered_by_check_boxes e gui dont_filter =
     filter (\<lambda>s.
        let hasTransponder = checkBoxTransponder gui \<and> Transponder_Uplink s;
            hasUplink = checkBoxUplink gui \<and> Uplinks s;
            hasDownlink = checkBoxDownlink gui \<and> Downlinks s;
            hasBeacon = checkBoxBeacon gui \<and> Beacons s;
            hasMode = (comboBoxMode gui = ''Any'' \<or> comboBoxMode gui \<in> set (Modes s))
        in (hasTransponder \<or> hasUplink \<or> hasDownlink \<or> hasBeacon \<or> dont_filter) \<and> hasMode)
       (map snd (satellites e))"

subsection \<open>The aggregated pass list (\<^verbatim>\<open>transit_list_sorted_by_time\<close>)\<close>

text \<open>An entry is the Python list \<^verbatim>\<open>[rise, transit, set, sat]\<close>.\<close>

type_synonym pass_info = "real \<times> real \<times> real \<times> string"

fun pass_info_loop :: "string \<Rightarrow> (real \<times> string) list \<Rightarrow> pass_info \<Rightarrow> pass_info list
    \<Rightarrow> pass_info list" where
  "pass_info_loop sat [] pass_info transit_list = transit_list"
| "pass_info_loop sat ((t, name) # rest) (r, tr, s, nm) transit_list =
     (if name = ''rise'' then pass_info_loop sat rest (t, tr, s, nm) transit_list
      else if name = ''transit'' then pass_info_loop sat rest (r, t, s, nm) transit_list
      else if name = ''set'' then
        pass_info_loop sat rest (0, 0, 0, sat) (transit_list @ [(r, tr, t, nm)])
      else pass_info_loop sat rest (r, tr, s, nm) transit_list)"

text \<open>
  The loop over the filtered satellites; \<open>clock i\<close> is the reading of \<^verbatim>\<open>ts.now()\<close> that
  \<^verbatim>\<open>get_next_passes\<close> makes for satellite number \<open>i\<close>. An exception that
  \<^verbatim>\<open>get_next_passes\<close> lets through ends the loop.
\<close>

fun transit_loop :: "'s env \<Rightarrow> (nat \<Rightarrow> real) \<Rightarrow> int \<Rightarrow> nat \<Rightarrow> satellite_data list
    \<Rightarrow> pass_info list \<Rightarrow> error + pass_info list" where
  "transit_loop e clock number_of_passes i [] transit_list = Inr transit_list"
| "transit_loop e clock number_of_passes i (v # vs) transit_list =
     (let sat = Satellite v in
      case get_next_passes e (clock i) sat number_of_passes of
        Inl err \<Rightarrow> Inl err
      | Inr pass_list \<Rightarrow>
          (let transit_list1 = pass_info_loop sat pass_list (0, 0, 0, sat) transit_list;
               transit_list2 = (if pass_list = [] then transit_list1 @ [(0, 0, 0, sat)]
                                else transit_list1)
           in transit_loop e clock number_of_passes (Suc i) vs transit_list2))"

text \<open>
  \<^verbatim>\<open>transit_list.sort()\<close> compares the entries as Python compares lists: element by
  element, numbers by value and strings by code point. That is the lexicographic order of
  the product and of \<open>char list\<close>; the order is total, so the sorted list is unique.
\<close>

definition transit_list_sorted_by_time ::
  "'s env \<Rightarrow> check_boxes \<Rightarrow> (nat \<Rightarrow> real) \<Rightarrow> int \<Rightarrow> error + pass_info list" where
  "transit_list_sorted_by_time e gui clock number_of_passes =
     (case transit_loop e clock number_of_passes 0
             (satellites_filtered_by_check_boxes e gui False) [] of
        Inl err \<Rightarrow> Inl err
      | Inr transit_list \<Rightarrow> Inr (sort transit_list))"

subsection \<open>The caller of the event finder (\<^verbatim>\<open>draw_next_passes_for_selected_satellite\<close>)\<close>

text \<open>
  The part of the method before the plotting loop: the pass list is fetched, nothing is
  drawn when it is empty (\<open>None\<close>), and a rise at the present moment \<open>now_ts2\<close> (a second
  reading of the clock) is put in front when the first event is not a rise.
\<close>

definition pass_list_for_drawing ::
  "'s env \<Rightarrow> real \<Rightarrow> real \<Rightarrow> string \<Rightarrow> int \<Rightarrow> error + (real \<times> string) list option" where
  "pass_list_for_drawing e now_ts now_ts2 satellite_name number_of_passes =
     (case get_next_passes e now_ts satellite_name number_of_passes of
        Inl err \<Rightarrow> Inl err
      | Inr pass_list \<Rightarrow>
          (case pass_list of
             [] \<Rightarrow> Inr None
           | first # _ \<Rightarrow>
               if snd first \<noteq> ''rise'' then Inr (Some ((now_ts2, ''rise'') # pass_list))
               else Inr (Some pass_list)))"

subsection \<open>Graph and Polar (\<^verbatim>\<open>graphqt5.py\<close>)\<close>

text \<open>
  The numeric attributes of a \<^verbatim>\<open>Graph\<close>; the label, the colours, the texts and the pixmap
  take no part in the coordinate transforms. \<^verbatim>\<open>Polar.__init__\<close> sets the same attributes
  from \<^verbatim>\<open>r_min, r_max, theta_min, theta_max, r_circles, theta_spokes\<close>.
\<close>

record graph =
  image_size_x :: real
  image_size_y :: real
  xmin :: real
  xmax :: real
  ymin :: real
  ymax :: real
  xgrids :: int
  ygrids :: int

definition Graph_init :: "real \<Rightarrow> real \<Rightarrow> real \<Rightarrow> real \<Rightarrow> int \<Rightarrow> int \<Rightarrow> real \<Rightarrow> real \<Rightarrow> graph" where
  "Graph_init xmin0 xmax0 ymin0 ymax0 xgrids0 ygrids0 size_x size_y =
     \<lparr>image_size_x = size_x, image_size_y = size_y,
      xmin = (if xmax0 - xmin0 = 0 then 0 else xmin0),
      xmax = (if xmax0 - xmin0 = 0 then 1 else xmax0),
      ymin = (if ymax0 - ymin0 = 0 then (if ymax0 > 0 then 0 else ymin0) else ymin0),
      ymax = (if ymax0 - ymin0 = 0 then (if ymax0 > 0 then ymax0 else 0) else ymax0),
      xgrids = (if xgrids0 \<le> 0 then 1 else xgrids0),
      ygrids = (if ygrids0 \<le> 0 then 1 else ygrids0)\<rparr>"

definition Polar_init :: "real \<Rightarrow> real \<Rightarrow> real \<Rightarrow> real \<Rightarrow> int \<Rightarrow> int \<Rightarrow> real \<Rightarrow> real \<Rightarrow> graph" where
  "Polar_init r_min r_max theta_min theta_max r_circles theta_spokes size_x size_y =
     \<lparr>image_size_x = size_x, image_size_y = size_y,
      xmin = (if r_max - r_min = 0 then 0 else r_min),
      xmax = (if r_max - r_min = 0 then 1 else r_max),
      ymin = (if theta_max - theta_min = 0 then (if theta_max > 0 then 0 else theta_min)
              else theta_min),
      ymax = (if theta_max - theta_min = 0 then (if theta_max > 0 then theta_max else 0)
              else theta_max),
      xgrids = (if r_circles \<le> 0 then 1 else r_circles),
      ygrids = (if theta_spokes \<le> 0 then 1 else theta_spokes)\<rparr>"

text \<open>A Python division by zero raises ZeroDivisionError.\<close>

definition tx :: "graph \<Rightarrow> real \<Rightarrow> error + real" where
  "tx g x =
     (if xmax g - xmin g = 0 then Inl ZeroDivisionError
      else Inr (image_size_x g / (xmax g - xmin g) * (x - xmin g)))"

definition ty :: "graph \<Rightarrow> real \<Rightarrow> error + real" where
  "ty g y =
     (let imsize = image_size_y g in
      if ymax g - ymin g = 0 then Inl ZeroDivisionError
      else (let yt = imsize / (ymax g - ymin g) * (y - ymin g) in Inr (imsize - yt)))"

definition pRad :: "graph \<Rightarrow> real \<Rightarrow> error + real" where
  "pRad g r =
     (let graphRadius = min (image_size_x g) (image_size_y g) / 2 in
      if xmax g - xmin g = 0 then Inl ZeroDivisionError
      else (let rp = (xmax g - r) / (xmax g - xmin g) in Inr (graphRadius * rp)))"

subsection \<open>Notions used in the statements\<close>

text \<open>The number of \<^verbatim>\<open>'set'\<close> events among the first \<open>i\<close> entries of an event list.\<close>

definition sets_before :: "(real \<times> string) list \<Rightarrow> nat \<Rightarrow> int" where
  "sets_before evs i = int (length (filter (\<lambda>ev. snd ev = ''set'') (take i evs)))"

text \<open>The speed of light in km/s, which is 299792.458 exactly.\<close>

definition speed_of_light_km_s :: real where
  "speed_of_light_km_s = 299792.458"

text \<open>
  The projection of a velocity on the unit vector of a position, in the words of the
  specification: the velocity dotted with the position scaled to length one.
\<close>

definition unit_vector :: "vec3 \<Rightarrow> vec3" where
  "unit_vector p = (case p of (p1, p2, p3) \<Rightarrow>
     (p1 / linalg_norm p, p2 / linalg_norm p, p3 / linalg_norm p))"

definition projection_on_line_of_sight :: "vec3 \<Rightarrow> vec3 \<Rightarrow> real" where
  "projection_on_line_of_sight velocity pos = dot velocity (unit_vector pos)"

text \<open>
  The point that one round of the loop of \<^verbatim>\<open>create_pass_line\<close> appends for the
  observation \<open>ob\<close> made at \<open>calc_time\<close>.
\<close>

definition make_point :: "(real \<Rightarrow> string) \<Rightarrow> string \<Rightarrow> int \<Rightarrow> angle \<times> angle \<times> real option
    \<Rightarrow> real \<Rightarrow> int \<Rightarrow> point" where
  "make_point hms colour text_every_point ob calc_time point_number =
     \<lparr>pt_alt = degrees (fst ob), pt_az = radians (fst (snd ob)), pt_colour = colour, pt_size = 4,
      pt_text = (if text_every_point \<noteq> 0 \<and> point_number mod text_every_point = 0
                 then hms calc_time else '''')\<rparr>"

text \<open>
  The time of sample number \<open>k\<close> of \<^verbatim>\<open>create_pass_line\<close>: the rise time after \<open>k\<close>
  float additions of the step.
\<close>

definition sample_time :: "real \<Rightarrow> real \<Rightarrow> nat \<Rightarrow> real" where
  "sample_time rise_tt interval k =
     ((\<lambda>t. float_add t (float_mul JULIAN_SEC interval)) ^^ k) rise_tt"

subsection \<open>A small world for concrete runs\<close>

text \<open>
  Four satellites: \<^verbatim>\<open>AO-7\<close> and \<^verbatim>\<open>ISS\<close> are above the horizon when the search starts
  (their first event is a transit) and have a full pass later; \<^verbatim>\<open>GEO\<close> never crosses the
  horizon; the catalogue number of \<^verbatim>\<open>BAD\<close> is not a number. A satellite object is its
  catalogue number. The altitude at time \<open>t\<close> is \<open>86400 * t\<close> degrees, so that a sampled
  point shows the second at which it was taken.
\<close>

definition demo_sat :: "string \<Rightarrow> string \<Rightarrow> satellite_data" where
  "demo_sat name number =
     \<lparr>Satellite = name, Number = number, Transponder_Uplink = False, Uplinks = False,
      Downlinks = True, Beacons = False, Modes = [''FM'']\<rparr>"

definition demo_env :: "int env" where
  "demo_env =
     \<lparr>satellites = [(''AO-7'', demo_sat ''AO-7'' ''1''), (''ISS'', demo_sat ''ISS'' ''2''),
                    (''GEO'', demo_sat ''GEO'' ''3''), (''BAD'', demo_sat ''BAD'' ''x'')],
      by_number = (\<lambda>n. if n = 1 \<or> n = 2 \<or> n = 3 then Some n else None),
      py_int = (\<lambda>s. if s = ''1'' then Some 1 else if s = ''2'' then Some 2
                     else if s = ''3'' then Some 3 else None),
      difference_at = (\<lambda>sat t. Inr \<lparr>position_km = (3, 4, 0), velocity_km_per_s = (5, 0, 0),
                                      altaz = (Angle (86400 * t), Angle 0, 5)\<rparr>),
      find_events = (\<lambda>sat t0 t1.
         if sat = 1 then
           Inr ([t0 + 3 / 10, t0 + 4 / 10, t0 + 6 / 10, t0 + 7 / 10, t0 + 8 / 10], [1, 2, 0, 1, 2])
         else if sat = 2 then
           Inr ([t0 + 1 / 10, t0 + 2 / 10, t0 + 5 / 10, t0 + 6 / 10, t0 + 7 / 10], [1, 2, 0, 1, 2])
         else Inr ([], []))\<rparr>"

definition demo_gui :: check_boxes where
  "demo_gui = \<lparr>checkBoxTransponder = True, checkBoxUplink = True, checkBoxDownlink = True,
               checkBoxBeacon = True, comboBoxMode = ''Any''\<rparr>"

text \<open>A clock that stands still, and a number format that prints nothing but a mark.\<close>

definition demo_clock :: "nat \<Rightarrow> real" where
  "demo_clock i = 0"

definition demo_fmt :: "real option \<Rightarrow> string" where
  "demo_fmt d = ''#''"

text \<open>A time format that prints the same text for every time.\<close>

definition demo_hms :: "real \<Rightarrow> string" where
  "demo_hms t = '' hh:mm:ss''"

text \<open>
  A format for the Doppler texts: the sign, then the digits of the integer nearest to the
  value, as \<^verbatim>\<open>{:+0.0f}\<close> prints a float.
\<close>

function decimal :: "nat \<Rightarrow> string" where
  "decimal n =
     (if n < 10 then [''0123456789'' ! n]
      else decimal (n div 10) @ [''0123456789'' ! (n mod 10)])"
  by pat_completeness auto
termination
  by (relation "measure id") auto

definition format_hz :: "real option \<Rightarrow> string" where
  "format_hz d =
     (case d of
        None \<Rightarrow> ''nan''
      | Some x \<Rightarrow> (if x < 0 then ''-'' else ''+'') @ decimal (nat \<bar>round_half_even x\<bar>))"

text \<open>A clock at second 45, when the altitude of the small world is 45 degrees.\<close>

definition demo_clock_up :: "nat \<Rightarrow> real" where
  "demo_clock_up i = 45 / 86400"

text \<open>The same world with the satellites approaching: the velocity is reversed.\<close>

definition approaching_env :: "int env" where
  "approaching_env = demo_env\<lparr>difference_at :=
     (\<lambda>sat t. Inr \<lparr>position_km = (3, 4, 0), velocity_km_per_s = (- 5, 0, 0),
                    altaz = (Angle (86400 * t), Angle 0, 5)\<rparr>)\<rparr>"

text \<open>The same world with a transform that fails for every satellite and time.\<close>

definition failing_env :: "error \<Rightarrow> int env" where
  "failing_env err = demo_env\<lparr>difference_at := (\<lambda>sat t. Inl err),
                               find_events := (\<lambda>sat t0 t1. Inl err)\<rparr>"

section \<open>Theorems\<close>

subsection \<open>The event finder\<close>

lemma sets_before_0: "sets_before evs 0 = 0"
  by (simp add: sets_before_def)

lemma sets_before_Cons_Suc:
  "sets_before (ev # evs) (Suc i) = (if snd ev = ''set'' then 1 else 0) + sets_before evs i"
  by (simp add: sets_before_def)

lemma sets_before_Suc_le: "sets_before evs (Suc i) \<le> sets_before evs i + 1"
proof (induction evs arbitrary: i)
  case Nil
  then show ?case by (simp add: sets_before_def)
next
  case (Cons ev evs)
  show ?case
  proof (cases i)
    case 0
    then show ?thesis by (simp add: sets_before_def)
  next
    case (Suc j)
    with Cons.IH [of j] show ?thesis by (simp add: sets_before_Cons_Suc)
  qed
qed

lemma event_loop_result:
  "event_loop N p xs acc = Inr r \<Longrightarrow>
     \<exists>ys. r = acc @ ys \<and> length ys \<le> length xs
        \<and> (\<forall>i<length ys. fst (ys ! i) = fst (xs ! i) \<and> event_name (snd (xs ! i)) = Inr (snd (ys ! i)))
        \<and> (\<forall>i<length ys. p + sets_before ys i < N)
        \<and> (length ys < length xs \<longrightarrow> N \<le> p + sets_before ys (length ys))"
proof (induction xs arbitrary: p acc r)
  case Nil
  then show ?case by simp
next
  case (Cons x xs)
  obtain ti event where x: "x = (ti, event)" by (cases x)
  show ?case
  proof (cases "p \<ge> N")
    case True
    with Cons.prems x show ?thesis by (simp add: sets_before_0)
  next
    case False
    with Cons.prems x obtain name where nm: "event_name event = Inr name"
      and rec: "event_loop N (if name = ''set'' then p + 1 else p) xs (acc @ [(ti, name)]) = Inr r"
      by (auto split: sum.splits)
    from Cons.IH [OF rec] obtain ys where ys: "r = (acc @ [(ti, name)]) @ ys" "length ys \<le> length xs"
      "\<forall>i<length ys. fst (ys ! i) = fst (xs ! i) \<and> event_name (snd (xs ! i)) = Inr (snd (ys ! i))"
      "\<forall>i<length ys. (if name = ''set'' then p + 1 else p) + sets_before ys i < N"
      "length ys < length xs \<longrightarrow> N \<le> (if name = ''set'' then p + 1 else p) + sets_before ys (length ys)"
      by blast
    let ?zs = "(ti, name) # ys"
    have a: "r = acc @ ?zs" using ys(1) by simp
    have b: "length ?zs \<le> length (x # xs)" using ys(2) by simp
    have c: "fst (?zs ! i) = fst ((x # xs) ! i) \<and> event_name (snd ((x # xs) ! i)) = Inr (snd (?zs ! i))"
      if "i < length ?zs" for i
      using that ys(3) nm x by (cases i) auto
    have d: "p + sets_before ?zs i < N" if "i < length ?zs" for i
    proof (cases i)
      case 0
      with False show ?thesis by (simp add: sets_before_0)
    next
      case (Suc j)
      with that have "j < length ys" by simp
      with ys(4) have "(if name = ''set'' then p + 1 else p) + sets_before ys j < N" by blast
      with Suc show ?thesis by (simp add: sets_before_Cons_Suc split: if_splits)
    qed
    have e: "length ?zs < length (x # xs) \<longrightarrow> N \<le> p + sets_before ?zs (length ?zs)"
      using ys(5) by (auto simp: sets_before_Cons_Suc split: if_splits)
    from a b c d e show ?thesis by blast
  qed
qed

text \<open>What a successful call returned: nothing, or a prefix of what the library found.\<close>

lemma get_next_passes_result:
  assumes "get_next_passes e now_ts name N = Inr evs"
  shows "evs = [] \<or>
     (\<exists>sat times events. lookup_satellite e name = Inr sat
        \<and> find_events e sat now_ts (now_ts + 1) = Inr (times, events)
        \<and> length evs \<le> length times \<and> length evs \<le> length events
        \<and> (\<forall>i<length evs. fst (evs ! i) = times ! i \<and> event_name (events ! i) = Inr (snd (evs ! i)))
        \<and> (\<forall>i<length evs. sets_before evs i < N)
        \<and> (length evs < min (length times) (length events) \<longrightarrow> N \<le> sets_before evs (length evs)))"
proof (cases "lookup_satellite e name")
  case (Inl err)
  with assms show ?thesis
    by (cases err) (simp_all add: get_next_passes_def except_ValueError_def)
next
  case (Inr sat)
  show ?thesis
  proof (cases "find_events e sat now_ts (now_ts + 1)")
    case (Inl err)
    with Inr assms show ?thesis
      by (cases err) (simp_all add: get_next_passes_def except_ValueError_def)
  next
    case found: (Inr p)
    obtain times events where p: "p = (times, events)" by (cases p)
    have "event_loop N 0 (zip times events) [] = Inr evs \<or> evs = []"
      using assms Inr found p
      by (auto simp: get_next_passes_def except_ValueError_def split: sum.splits error.splits)
    then show ?thesis
    proof
      assume "event_loop N 0 (zip times events) [] = Inr evs"
      from event_loop_result [OF this] have
        len: "length evs \<le> length (zip times events)"
        and nth: "\<forall>i<length evs. fst (evs ! i) = fst (zip times events ! i)
            \<and> event_name (snd (zip times events ! i)) = Inr (snd (evs ! i))"
        and cnt: "\<forall>i<length evs. sets_before evs i < N"
        and full: "length evs < length (zip times events) \<longrightarrow> N \<le> sets_before evs (length evs)"
        by auto
      from len nth have "\<forall>i<length evs. fst (evs ! i) = times ! i
            \<and> event_name (events ! i) = Inr (snd (evs ! i))"
        by auto
      with len cnt full Inr found p show ?thesis by auto
    next
      assume "evs = []"
      then show ?thesis by simp
    qed
  qed
qed

lemmas demo_simps = get_next_passes_def demo_env_def lookup_satellite_def demo_sat_def
  except_ValueError_def event_name_def

text \<open>
  C3. For a requested pass count \<open>N \<ge> 0\<close>, the event list that \<^verbatim>\<open>get_next_passes\<close>
  returns holds at most \<open>N\<close> \<^verbatim>\<open>'set'\<close> events, and every event in it has fewer than \<open>N\<close>
  \<^verbatim>\<open>'set'\<close> events before it: nothing follows the \<open>N\<close>-th \<^verbatim>\<open>'set'\<close>.
\<close>

theorem passes_capped_at_requested_count:
  assumes "get_next_passes e now_ts name N = Inr evs" and "0 \<le> N"
  shows "sets_before evs (length evs) \<le> N \<and> (\<forall>i<length evs. sets_before evs i < N)"
proof -
  from get_next_passes_result [OF assms(1)]
  have cnt: "\<forall>i<length evs. sets_before evs i < N"
    by auto
  have "sets_before evs (length evs) \<le> N"
  proof (cases evs rule: rev_cases)
    case Nil
    with assms(2) show ?thesis by (simp add: sets_before_def)
  next
    case (snoc ys y)
    then have "length evs = Suc (length ys)" by simp
    moreover from cnt snoc have "sets_before evs (length ys) < N" by simp
    moreover have "sets_before evs (Suc (length ys)) \<le> sets_before evs (length ys) + 1"
      by (rule sets_before_Suc_le)
    ultimately show ?thesis by simp
  qed
  with cnt show ?thesis by simp
qed

theorem passes_capped_at_requested_count_witness:
  "get_next_passes demo_env 0 ''AO-7'' 1 = Inr [(3 / 10, ''transit''), (2 / 5, ''set'')]
   \<and> sets_before [(3 / 10, ''transit''), (2 / 5, ''set'')]
         (length [(3 / 10 :: real, ''transit''), (2 / 5, ''set'')]) \<le> 1
   \<and> sets_before [(3 / 10, ''transit''), (2 / 5, ''set'')] (Suc 0) < 1"
proof -
  have run: "get_next_passes demo_env 0 ''AO-7'' 1 = Inr [(3 / 10, ''transit''), (2 / 5, ''set'')]"
    by (simp add: demo_simps)
  from passes_capped_at_requested_count [OF run] show ?thesis using run by simp
qed

text \<open>
  C4, as stated, fails in its last part: the empty list is what the call returns for a
  satellite that never crosses the horizon (\<^verbatim>\<open>GEO\<close>), and also what it returns when the
  catalogue number does not convert (\<^verbatim>\<open>BAD\<close>) or when the event search raises ValueError.
  The caller cannot tell the three apart.
\<close>

theorem empty_result_not_distinguished_counterexample:
  "lookup_satellite demo_env ''GEO'' = Inr 3
   \<and> find_events demo_env 3 0 (0 + 1) = Inr ([], [])
   \<and> get_next_passes demo_env 0 ''GEO'' 3 = Inr []
   \<and> lookup_satellite demo_env ''BAD'' = Inl ValueError
   \<and> get_next_passes demo_env 0 ''BAD'' 3 = Inr []
   \<and> lookup_satellite (failing_env ValueError) ''AO-7'' = Inr 1
   \<and> find_events (failing_env ValueError) 1 0 (0 + 1) = Inl ValueError
   \<and> get_next_passes (failing_env ValueError) 0 ''AO-7'' 3 = Inr []"
  by (simp add: demo_simps failing_env_def)

text \<open>
  C4, amended. For a satellite that the tables resolve and for which the library finds no
  event in the window, \<^verbatim>\<open>get_next_passes\<close> returns the empty list and raises nothing. A
  ValueError of the event search gives the same empty list: the empty result is not
  distinguished from that failure.
\<close>

theorem never_visible_gives_empty_list:
  assumes "lookup_satellite e name = Inr sat"
    and "find_events e sat now_ts (now_ts + 1) = Inr ([], [])
         \<or> find_events e sat now_ts (now_ts + 1) = Inl ValueError"
  shows "get_next_passes e now_ts name N = Inr []"
  using assms by (auto simp: get_next_passes_def except_ValueError_def)

theorem never_visible_gives_empty_list_witness:
  "lookup_satellite demo_env ''GEO'' = Inr 3
   \<and> find_events demo_env 3 0 (0 + 1) = Inr ([], [])
   \<and> get_next_passes demo_env 0 ''GEO'' 5 = Inr []"
proof -
  have a: "lookup_satellite demo_env ''GEO'' = Inr 3"
    by (simp add: demo_simps)
  have b: "find_events demo_env 3 0 (0 + 1) = Inr ([], [])"
    by (simp add: demo_env_def)
  from never_visible_gives_empty_list [OF a disjI1 [OF b]] a b show ?thesis by simp
qed

text \<open>
  C5. The events of one call are in non-decreasing time order, given that the library's
  \<^verbatim>\<open>find_events\<close> returns its times in ascending order: the code returns a prefix of
  them, in the order found.
\<close>

theorem events_in_time_order:
  assumes "get_next_passes e now_ts name N = Inr evs"
    and "\<forall>sat times events.
           find_events e sat now_ts (now_ts + 1) = Inr (times, events) \<longrightarrow> sorted times"
  shows "sorted (map fst evs)"
proof -
  from get_next_passes_result [OF assms(1)] show ?thesis
  proof
    assume "evs = []"
    then show ?thesis by simp
  next
    assume "\<exists>sat times events. lookup_satellite e name = Inr sat
        \<and> find_events e sat now_ts (now_ts + 1) = Inr (times, events)
        \<and> length evs \<le> length times \<and> length evs \<le> length events
        \<and> (\<forall>i<length evs. fst (evs ! i) = times ! i \<and> event_name (events ! i) = Inr (snd (evs ! i)))
        \<and> (\<forall>i<length evs. sets_before evs i < N)
        \<and> (length evs < min (length times) (length events) \<longrightarrow> N \<le> sets_before evs (length evs))"
    then obtain sat times events where
      found: "find_events e sat now_ts (now_ts + 1) = Inr (times, events)"
      and len: "length evs \<le> length times"
      and nth: "\<forall>i<length evs. fst (evs ! i) = times ! i"
      by blast
    from found assms(2) have "sorted times" by blast
    moreover have "map fst evs = take (length evs) times"
      using len nth by (intro nth_equalityI) simp_all
    ultimately show ?thesis by (simp add: sorted_wrt_take)
  qed
qed

theorem events_in_time_order_witness:
  "get_next_passes demo_env 0 ''AO-7'' 2
     = Inr [(3 / 10, ''transit''), (2 / 5, ''set''), (3 / 5, ''rise''), (7 / 10, ''transit''),
            (4 / 5, ''set'')]
   \<and> sorted (map fst [(3 / 10 :: real, ''transit''), (2 / 5, ''set''), (3 / 5, ''rise''),
                       (7 / 10, ''transit''), (4 / 5, ''set'')])"
proof -
  have run: "get_next_passes demo_env 0 ''AO-7'' 2
     = Inr [(3 / 10, ''transit''), (2 / 5, ''set''), (3 / 5, ''rise''), (7 / 10, ''transit''),
            (4 / 5, ''set'')]"
    by (simp add: demo_simps)
  have lib: "\<forall>sat times events.
      find_events demo_env sat 0 (0 + 1) = Inr (times, events) \<longrightarrow> sorted times"
    by (auto simp: demo_env_def split: if_splits)
  from events_in_time_order [OF run lib] run show ?thesis by simp
qed

text \<open>
  C6. Every event of a non-empty result of \<^verbatim>\<open>get_next_passes\<close> is the event the library
  found at the same position, with its time and the name of its code; so the list starts
  with the first event found and holds no fabricated rise. The caller
  \<^verbatim>\<open>draw_next_passes_for_selected_satellite\<close> puts a rise at the present moment in front
  exactly when the first event is not a rise.
\<close>

theorem no_synthetic_rise:
  assumes "get_next_passes e now_ts name N = Inr evs" and "evs \<noteq> []"
  shows "\<exists>sat times events. lookup_satellite e name = Inr sat
        \<and> find_events e sat now_ts (now_ts + 1) = Inr (times, events)
        \<and> length evs \<le> length times \<and> length evs \<le> length events
        \<and> (\<forall>i<length evs. fst (evs ! i) = times ! i \<and> event_name (events ! i) = Inr (snd (evs ! i)))
        \<and> pass_list_for_drawing e now_ts now_ts2 name N
            = Inr (Some (if snd (hd evs) = ''rise'' then evs else (now_ts2, ''rise'') # evs))"
proof -
  have caller: "pass_list_for_drawing e now_ts now_ts2 name N
            = Inr (Some (if snd (hd evs) = ''rise'' then evs else (now_ts2, ''rise'') # evs))"
    using assms by (cases evs) (simp_all add: pass_list_for_drawing_def)
  from get_next_passes_result [OF assms(1)] assms(2) caller show ?thesis
    by blast
qed

theorem no_synthetic_rise_witness:
  "get_next_passes demo_env 0 ''AO-7'' 1 = Inr [(3 / 10, ''transit''), (2 / 5, ''set'')]
   \<and> find_events demo_env 1 0 (0 + 1)
       = Inr ([3 / 10, 2 / 5, 3 / 5, 7 / 10, 4 / 5], [1, 2, 0, 1, 2])
   \<and> pass_list_for_drawing demo_env 0 (1 / 100) ''AO-7'' 1
       = Inr (Some [(1 / 100, ''rise''), (3 / 10, ''transit''), (2 / 5, ''set'')])"
proof -
  have run: "get_next_passes demo_env 0 ''AO-7'' 1 = Inr [(3 / 10, ''transit''), (2 / 5, ''set'')]"
    by (simp add: demo_simps)
  have ne: "[(3 / 10 :: real, ''transit''), (2 / 5, ''set'')] \<noteq> []"
    by simp
  have found: "find_events demo_env 1 0 (0 + 1)
       = Inr ([3 / 10, 2 / 5, 3 / 5, 7 / 10, 4 / 5], [1, 2, 0, 1, 2])"
    by (simp add: demo_env_def)
  from no_synthetic_rise [OF run ne, of "1 / 100"] run found show ?thesis
    by auto
qed

subsection \<open>The range rate\<close>

lemma slant_velocity_is_projection:
  assumes "linalg_norm pos \<noteq> 0"
  shows "slant_velocity_km_s velocity pos = Some (projection_on_line_of_sight velocity pos)"
  using assms
  by (cases pos, cases velocity)
     (simp add: slant_velocity_km_s_def projection_on_line_of_sight_def unit_vector_def dot_def
       add_divide_distrib)

text \<open>The slant velocity is the rate of change of the range.\<close>

lemma range_has_derivative_slant_velocity:
  assumes x: "(x has_real_derivative vx) (at t)"
    and y: "(y has_real_derivative vy) (at t)"
    and z: "(z has_real_derivative vz) (at t)"
    and nz: "linalg_norm (x t, y t, z t) \<noteq> 0"
  shows "((\<lambda>s. linalg_norm (x s, y s, z s)) has_real_derivative
            dot (vx, vy, vz) (x t, y t, z t) / linalg_norm (x t, y t, z t)) (at t)"
proof -
  let ?q = "\<lambda>s. x s * x s + y s * y s + z s * z s"
  have "?q t \<noteq> 0"
    using nz by (simp add: linalg_norm_def)
  moreover have "0 \<le> ?q t"
    by simp
  ultimately have pos: "0 < ?q t"
    by linarith
  have dq: "(?q has_real_derivative (2 * (vx * x t + vy * y t + vz * z t))) (at t)"
    by (auto intro!: derivative_eq_intros x y z)
  have "((\<lambda>s. sqrt (?q s)) has_real_derivative
           inverse (sqrt (?q t)) / 2 * (2 * (vx * x t + vy * y t + vz * z t))) (at t)"
    by (rule DERIV_chain2 [OF DERIV_real_sqrt [OF pos] dq])
  moreover have "inverse s / 2 * (2 * d) = d / s" for s d :: real
    by (simp add: field_simps)
  ultimately have "((\<lambda>s. sqrt (?q s)) has_real_derivative
           (vx * x t + vy * y t + vz * z t) / sqrt (?q t)) (at t)"
    by (simp only:)
  then show ?thesis
    by (simp only: linalg_norm_def dot_def prod.case)
qed


lemma get_alt_azimuth_transformed:
  assumes "lookup_satellite e name = Inr sat" and "difference_at e sat t = Inr topo"
  shows "get_alt_azimuth e t name =
     Inr (fst (altaz topo), fst (snd (altaz topo)),
          slant_velocity_km_s (velocity_km_per_s topo) (position_km topo))"
  using assms by (simp add: get_alt_azimuth_def split: prod.splits)

text \<open>
  C7. When the satellite is resolved and the transform succeeds, with the satellite not at
  the observer's own position, the range rate that \<^verbatim>\<open>get_alt_azimuth\<close> returns is the
  dot product of the relative velocity with the relative position divided by the norm of
  the position, which is the projection of the velocity on the unit vector from observer
  to satellite. It is the rate of change of the range along any trajectory that has this
  position and velocity at the time of the observation: positive when the range grows
  (the satellite recedes), negative when it shrinks (the satellite approaches).
\<close>

theorem range_rate_is_line_of_sight_projection:
  assumes "lookup_satellite e name = Inr sat"
    and "difference_at e sat t = Inr topo"
    and "linalg_norm (position_km topo) \<noteq> 0"
    and "position_km topo = (x t, y t, z t)"
    and "velocity_km_per_s topo = (vx, vy, vz)"
    and "(x has_real_derivative vx) (at t)"
    and "(y has_real_derivative vy) (at t)"
    and "(z has_real_derivative vz) (at t)"
  shows "\<exists>alt az d. get_alt_azimuth e t name = Inr (alt, az, Some d)
     \<and> d = projection_on_line_of_sight (velocity_km_per_s topo) (position_km topo)
     \<and> d = dot (velocity_km_per_s topo) (position_km topo) / linalg_norm (position_km topo)
     \<and> ((\<lambda>s. linalg_norm (x s, y s, z s)) has_real_derivative d) (at t)"
proof -
  let ?d = "dot (velocity_km_per_s topo) (position_km topo) / linalg_norm (position_km topo)"
  have sv: "slant_velocity_km_s (velocity_km_per_s topo) (position_km topo) = Some ?d"
    using assms(3) by (simp add: slant_velocity_km_s_def)
  have run: "get_alt_azimuth e t name = Inr (fst (altaz topo), fst (snd (altaz topo)), Some ?d)"
    using get_alt_azimuth_transformed [OF assms(1,2)] sv by simp
  have proj: "?d = projection_on_line_of_sight (velocity_km_per_s topo) (position_km topo)"
    using slant_velocity_is_projection [OF assms(3)] sv by simp
  have "linalg_norm (x t, y t, z t) \<noteq> 0"
    using assms(3,4) by simp
  from range_has_derivative_slant_velocity [OF assms(6,7,8) this]
  have "((\<lambda>s. linalg_norm (x s, y s, z s)) has_real_derivative ?d) (at t)"
    using assms(4,5) by simp
  with run proj show ?thesis by blast
qed

lemma sqrt_25: "sqrt 25 = 5"
  using real_sqrt_abs2 [of 5] by simp

theorem range_rate_is_line_of_sight_projection_witness:
  "get_alt_azimuth demo_env 0 ''AO-7'' = Inr (Angle 0, Angle 0, Some 3)
   \<and> projection_on_line_of_sight (5, 0, 0) (3, 4, 0) = 3
   \<and> ((\<lambda>s. linalg_norm (3 + 5 * s, 4, 0)) has_real_derivative 3) (at 0)"
proof -
  let ?topo = "\<lparr>position_km = (3, 4, 0), velocity_km_per_s = (5, 0, 0),
                altaz = (Angle (86400 * 0), Angle 0, 5)\<rparr>"
  have a: "lookup_satellite demo_env ''AO-7'' = Inr 1"
    by (simp add: demo_simps)
  have b: "difference_at demo_env 1 0 = Inr ?topo"
    by (simp add: demo_env_def)
  have n: "linalg_norm (3, 4, 0) = 5"
    by (simp add: linalg_norm_def sqrt_25)
  have c: "linalg_norm (position_km ?topo) \<noteq> 0"
    by (simp add: n)
  have p: "position_km ?topo = ((\<lambda>s. 3 + 5 * s) 0, (\<lambda>s. 4) 0, (\<lambda>s. 0) 0)"
    by simp
  have v: "velocity_km_per_s ?topo = (5, 0, 0)"
    by simp
  have dx: "((\<lambda>s. 3 + 5 * s) has_real_derivative 5) (at 0)"
    by (auto intro!: derivative_eq_intros)
  have dy: "((\<lambda>s. 4 :: real) has_real_derivative 0) (at 0)"
    by simp
  have dz: "((\<lambda>s. 0 :: real) has_real_derivative 0) (at 0)"
    by simp
  have run: "get_alt_azimuth demo_env 0 ''AO-7''
      = Inr (Angle 0, Angle 0, slant_velocity_km_s (5, 0, 0) (3, 4, 0))"
    using get_alt_azimuth_transformed [OF a b] by simp
  from range_rate_is_line_of_sight_projection [OF a b c p v dx dy dz] run
  show ?thesis
    by (auto simp: n dot_def)
qed

subsection \<open>Graph and Polar\<close>

lemma Graph_init_x_range: "xmax (Graph_init a b c d m n sx sy) - xmin (Graph_init a b c d m n sx sy) \<noteq> 0"
  by (simp add: Graph_init_def)

lemma Polar_init_x_range: "xmax (Polar_init a b c d m n sx sy) - xmin (Polar_init a b c d m n sx sy) \<noteq> 0"
  by (simp add: Polar_init_def)

lemma Graph_init_grids:
  "1 \<le> xgrids (Graph_init a b c d m n sx sy) \<and> 1 \<le> ygrids (Graph_init a b c d m n sx sy)"
  by (simp add: Graph_init_def)

lemma Polar_init_grids:
  "1 \<le> xgrids (Polar_init a b c d m n sx sy) \<and> 1 \<le> ygrids (Polar_init a b c d m n sx sy)"
  by (simp add: Polar_init_def)

lemma tx_total_on_Graph: "\<exists>v. tx (Graph_init a b c d m n sx sy) x = Inr v"
  using Graph_init_x_range [of a b c d m n sx sy] by (simp add: tx_def)

lemma pRad_total_on_Polar: "\<exists>v. pRad (Polar_init a b c d m n sx sy) r = Inr v"
  using Polar_init_x_range [of a b c d m n sx sy] by (simp add: pRad_def Let_def)

lemma ty_on_Graph:
  "ty (Graph_init a b c d m n sx sy) y = Inl ZeroDivisionError \<longleftrightarrow> c = 0 \<and> d = 0"
  by (auto simp: ty_def Graph_init_def Let_def)

lemma ty_on_Polar:
  "ty (Polar_init a b c d m n sx sy) y = Inl ZeroDivisionError \<longleftrightarrow> c = 0 \<and> d = 0"
  by (auto simp: ty_def Polar_init_def Let_def)

text \<open>
  C10. The constructors do normalise the x range and the grid counts, so \<^verbatim>\<open>tx\<close> and
  \<^verbatim>\<open>pRad\<close> never divide by zero (lemmas above). The y range is left at \<open>[0, 0]\<close> when
  \<open>ymin = ymax = 0\<close>: the branch \<^verbatim>\<open>ymax > 0\<close> is not taken and the other branch stores
  \<open>ymax = 0\<close> and \<open>ymin = ymin = 0\<close>. On such an instance \<^verbatim>\<open>ty\<close> raises
  ZeroDivisionError, in \<^verbatim>\<open>Graph\<close> and in \<^verbatim>\<open>Polar\<close>.
\<close>

theorem ty_divides_by_zero_on_zero_y_range:
  "ymin (Graph_init 0 1000 0 0 10 10 500 500) = 0
   \<and> ymax (Graph_init 0 1000 0 0 10 10 500 500) = 0
   \<and> ty (Graph_init 0 1000 0 0 10 10 500 500) 5 = Inl ZeroDivisionError
   \<and> ty (Polar_init 0 90 0 0 6 12 500 500) 5 = Inl ZeroDivisionError"
  by (simp add: ty_def Graph_init_def Polar_init_def)

subsection \<open>The aggregated pass list\<close>

lemma pass_info_le_iff:
  "(r1, t1, s1, n1) \<le> (r2, t2, s2, n2) \<longleftrightarrow>
     r1 < r2 \<or> (r1 = r2 \<and> (t1 < t2 \<or> (t1 = t2 \<and> (s1 < s2 \<or> (s1 = s2 \<and> n1 \<le> n2)))))"
  for r1 r2 t1 t2 s1 s2 :: real and n1 n2 :: string
  by (auto simp: less_eq_prod_def)

text \<open>
  C8, amended. The aggregated list is in non-decreasing order of rise time; entries with
  equal rise times are ordered by transit time, then by set time, and only then by
  satellite name: the order is the lexicographic order of the whole entry. The output is
  deterministic: it is the only sorted arrangement of its entries.
\<close>

theorem transit_list_lexicographic:
  assumes "transit_list_sorted_by_time e gui clock N = Inr ps"
  shows "sorted (map fst ps)
     \<and> (\<forall>i j. i < j \<and> j < length ps \<longrightarrow>
           (case ps ! i of (r1, t1, s1, n1) \<Rightarrow> case ps ! j of (r2, t2, s2, n2) \<Rightarrow>
              r1 < r2 \<or> (r1 = r2 \<and> (t1 < t2 \<or> (t1 = t2 \<and> (s1 < s2 \<or> (s1 = s2 \<and> n1 \<le> n2)))))))
     \<and> (\<forall>ys. mset ys = mset ps \<and> sorted ys \<longrightarrow> ys = ps)"
proof -
  from assms obtain xs where ps: "ps = sort xs"
    by (auto simp: transit_list_sorted_by_time_def split: sum.splits)
  have srt: "sorted ps"
    by (simp add: ps)
  have nth: "ps ! i \<le> ps ! j" if "i < j" "j < length ps" for i j
    using srt that by (simp add: sorted_nth_mono)
  have a: "sorted (map fst ps)"
    unfolding sorted_map
  proof (rule sorted_wrt_mono_rel [OF _ srt])
    fix x y :: pass_info
    assume "x \<le> y"
    then show "fst x \<le> fst y"
      by (auto simp: less_eq_prod_def)
  qed
  have b: "case ps ! i of (r1, t1, s1, n1) \<Rightarrow> case ps ! j of (r2, t2, s2, n2) \<Rightarrow>
              r1 < r2 \<or> (r1 = r2 \<and> (t1 < t2 \<or> (t1 = t2 \<and> (s1 < s2 \<or> (s1 = s2 \<and> n1 \<le> n2)))))"
    if "i < j \<and> j < length ps" for i j
  proof -
    obtain r1 t1 s1 n1 where pi: "ps ! i = (r1, t1, s1, n1)" by (cases "ps ! i")
    obtain r2 t2 s2 n2 where pj: "ps ! j = (r2, t2, s2, n2)" by (cases "ps ! j")
    from nth [of i j] that pi pj have "(r1, t1, s1, n1) \<le> (r2, t2, s2, n2)" by simp
    then show ?thesis
      unfolding pi pj pass_info_le_iff by simp
  qed
  have c: "ys = ps" if "mset ys = mset ps \<and> sorted ys" for ys
  proof -
    from that have "mset ys = mset xs" "sorted ys" by (simp_all add: ps)
    then have "sort xs = ys" by (rule properties_for_sort)
    then show ?thesis by (simp add: ps)
  qed
  from a b c show ?thesis by blast
qed

lemmas transit_simps = transit_list_sorted_by_time_def satellites_filtered_by_check_boxes_def
  demo_gui_def

lemma demo_transit_loop:
  "transit_loop demo_env demo_clock 1 0 (satellites_filtered_by_check_boxes demo_env demo_gui False) []
     = Inr [(0, 3 / 10, 2 / 5, ''AO-7''), (0, 1 / 10, 1 / 5, ''ISS''), (0, 0, 0, ''GEO''), (0, 0, 0, ''BAD'')]"
  by (simp add: transit_simps demo_simps demo_clock_def)


theorem transit_list_lexicographic_witness:
  "transit_list_sorted_by_time demo_env demo_gui demo_clock 1
     = Inr [(0, 0, 0, ''BAD''), (0, 0, 0, ''GEO''), (0, 1 / 10, 1 / 5, ''ISS''),
            (0, 3 / 10, 2 / 5, ''AO-7'')]
   \<and> sorted (map fst [(0 :: real, 0 :: real, 0 :: real, ''BAD''), (0, 0, 0, ''GEO''),
                       (0, 1 / 10, 1 / 5, ''ISS''), (0, 3 / 10, 2 / 5, ''AO-7'')])
   \<and> (1 / 10 :: real) < 3 / 10"
proof -
  have run: "transit_list_sorted_by_time demo_env demo_gui demo_clock 1
     = Inr [(0, 0, 0, ''BAD''), (0, 0, 0, ''GEO''), (0, 1 / 10, 1 / 5, ''ISS''),
            (0, 3 / 10, 2 / 5, ''AO-7'')]"
    using demo_transit_loop
    by (simp add: transit_list_sorted_by_time_def less_eq_prod_def less_char_def less_eq_char_def)
  from transit_list_lexicographic [OF run] run show ?thesis
    by simp
qed

text \<open>
  C8, as stated, fails: \<^verbatim>\<open>ISS\<close> and \<^verbatim>\<open>AO-7\<close> are both above the horizon when the search
  starts, so both entries have the rise time 0; the entry of \<^verbatim>\<open>ISS\<close> comes first, by its
  earlier transit, although \<^verbatim>\<open>AO-7\<close> is the smaller name.
\<close>

theorem tie_on_rise_not_broken_by_name_counterexample:
  "transit_list_sorted_by_time demo_env demo_gui demo_clock 1
     = Inr [(0, 0, 0, ''BAD''), (0, 0, 0, ''GEO''), (0, 1 / 10, 1 / 5, ''ISS''),
            (0, 3 / 10, 2 / 5, ''AO-7'')]
   \<and> ''AO-7'' < ''ISS''"
  using demo_transit_loop
  by (simp add: transit_list_sorted_by_time_def less_eq_prod_def less_char_def less_eq_char_def)

subsection \<open>Failures inside a batch\<close>

lemma get_alt_azimuth_fallback:
  assumes "lookup_satellite e name = Inl ValueError"
  shows "get_alt_azimuth e t name = Inr (Angle 0, Angle 0, Some 0)"
  using assms by (simp add: get_alt_azimuth_def)

lemma get_next_passes_fallback:
  assumes "lookup_satellite e name = Inl ValueError
     \<or> (\<exists>sat. lookup_satellite e name = Inr sat
            \<and> find_events e sat now_ts (now_ts + 1) = Inl ValueError)"
  shows "get_next_passes e now_ts name N = Inr []"
  using assms by (auto simp: get_next_passes_def except_ValueError_def)

lemma get_alt_azimuth_raises:
  assumes "(lookup_satellite e name = Inl err \<and> err \<noteq> ValueError)
     \<or> (\<exists>sat. lookup_satellite e name = Inr sat \<and> difference_at e sat t = Inl err)"
  shows "get_alt_azimuth e t name = Inl err"
  using assms by (cases err) (auto simp: get_alt_azimuth_def)

lemma get_next_passes_raises:
  assumes "err \<noteq> ValueError"
    and "lookup_satellite e name = Inl err
     \<or> (\<exists>sat. lookup_satellite e name = Inr sat
            \<and> find_events e sat now_ts (now_ts + 1) = Inl err)"
  shows "get_next_passes e now_ts name N = Inl err"
  using assms by (cases err) (auto simp: get_next_passes_def except_ValueError_def)

lemma get_next_passes_never_ValueError:
  "get_next_passes e now_ts name N \<noteq> Inl ValueError"
  by (auto simp: get_next_passes_def except_ValueError_def split: sum.splits error.splits)

lemma transit_loop_aborts:
  assumes "k < length vs"
    and "get_next_passes e (clock (i + k)) (Satellite (vs ! k)) N = Inl err"
  shows "\<exists>err'. transit_loop e clock N i vs transit_list = Inl err'"
  using assms
proof (induction vs arbitrary: i k transit_list)
  case Nil
  then show ?case by simp
next
  case (Cons v vs)
  show ?case
  proof (cases "get_next_passes e (clock i) (Satellite v) N")
    case (Inl err0)
    then show ?thesis by (simp add: Let_def)
  next
    case (Inr pass_list)
    with Cons.prems(2) have "k \<noteq> 0"
      by (cases k) auto
    then obtain j where k: "k = Suc j"
      by (cases k) auto
    with Cons.prems have "j < length vs"
      and "get_next_passes e (clock (Suc i + j)) (Satellite (vs ! j)) N = Inl err"
      by simp_all
    from Cons.IH [OF this] show ?thesis
      by (simp add: Inr Let_def)
  qed
qed

lemma up_positions_loop_aborts:
  assumes "k < length vs"
    and "get_alt_azimuth e (clock (i + k)) (Satellite (vs ! k)) = Inl err"
  shows "\<exists>err'. up_positions_loop e clock selected selected_mhz fmt i vs st = Inl err'"
  using assms
proof (induction vs arbitrary: i k st)
  case Nil
  then show ?case by simp
next
  case (Cons v vs)
  obtain up_positions doppler where st: "st = (up_positions, doppler)"
    by (cases st)
  show ?case
  proof (cases "get_alt_azimuth e (clock i) (Satellite v)")
    case (Inl err0)
    then show ?thesis by (simp add: st Let_def)
  next
    case (Inr ob)
    obtain alt az velocity where ob: "ob = (alt, az, velocity)"
      by (cases ob)
    from Inr Cons.prems(2) have "k \<noteq> 0"
      by (cases k) auto
    then obtain j where k: "k = Suc j"
      by (cases k) auto
    with Cons.prems have j: "j < length vs"
      "get_alt_azimuth e (clock (Suc i + j)) (Satellite (vs ! j)) = Inl err"
      by simp_all
    have rest: "\<exists>err'. up_positions_loop e clock selected selected_mhz fmt (Suc i) vs st' = Inl err'"
      for st'
      by (rule Cons.IH [OF j])
    show ?thesis
    proof (cases selected_mhz)
      case None
      with rest show ?thesis
        by (simp add: st Inr ob Let_def)
    next
      case (Some mhz)
      with rest show ?thesis
        by (simp add: st Inr ob Let_def)
    qed
  qed
qed


text \<open>
  C9, amended. A ValueError raised while the satellite is resolved, or by the event search
  of \<^verbatim>\<open>get_next_passes\<close>, is caught where it arises: \<^verbatim>\<open>get_next_passes\<close> returns the
  empty list, which \<^verbatim>\<open>transit_list_sorted_by_time\<close> records as \<^verbatim>\<open>[0, 0, 0, sat]\<close>, and
  \<^verbatim>\<open>get_alt_azimuth\<close> returns a zero altitude, azimuth and velocity; in both batch loops
  the iteration goes on with the remaining satellites. Nothing else is caught: an error
  other than ValueError of the lookup or of the event search leaves \<^verbatim>\<open>get_next_passes\<close>,
  an error other than ValueError of the lookup and every error of the transform leave
  \<^verbatim>\<open>get_alt_azimuth\<close>, and an error that leaves either method for one satellite ends
  the batch loop with an error.
\<close>

theorem only_ValueError_is_caught_locally:
  "((lookup_satellite e (Satellite v) = Inl ValueError
       \<or> (\<exists>sat. lookup_satellite e (Satellite v) = Inr sat
              \<and> find_events e sat (clock i) (clock i + 1) = Inl ValueError)) \<longrightarrow>
       get_next_passes e (clock i) (Satellite v) N = Inr []
     \<and> transit_loop e clock N i (v # vs) transit_list
         = transit_loop e clock N (Suc i) vs (transit_list @ [(0, 0, 0, Satellite v)]))
   \<and> (lookup_satellite e (Satellite v) = Inl ValueError \<longrightarrow>
         get_alt_azimuth e (clock i) (Satellite v) = Inr (Angle 0, Angle 0, Some 0)
       \<and> up_positions_loop e clock selected mhz fmt i (v # vs) (up_positions, doppler)
           = up_positions_loop e clock selected mhz fmt (Suc i) vs (up_positions, doppler))
   \<and> (err \<noteq> ValueError
        \<and> (lookup_satellite e name = Inl err
           \<or> (\<exists>sat. lookup_satellite e name = Inr sat
                  \<and> find_events e sat now_ts (now_ts + 1) = Inl err)) \<longrightarrow>
         get_next_passes e now_ts name N = Inl err)
   \<and> ((lookup_satellite e name = Inl err \<and> err \<noteq> ValueError)
        \<or> (\<exists>sat. lookup_satellite e name = Inr sat \<and> difference_at e sat t = Inl err) \<longrightarrow>
         get_alt_azimuth e t name = Inl err)
   \<and> (k < length ws
        \<and> get_next_passes e (clock (j + k)) (Satellite (ws ! k)) N = Inl err \<longrightarrow>
         (\<exists>err'. transit_loop e clock N j ws transit_list = Inl err'))
   \<and> (k < length (satellites_filtered_by_check_boxes e gui False)
        \<and> get_next_passes e (clock k)
             (Satellite (satellites_filtered_by_check_boxes e gui False ! k)) N = Inl err \<longrightarrow>
         (\<exists>err'. transit_list_sorted_by_time e gui clock N = Inl err'))
   \<and> (k < length ws
        \<and> get_alt_azimuth e (clock (j + k)) (Satellite (ws ! k)) = Inl err \<longrightarrow>
         (\<exists>err'. up_positions_loop e clock selected mhz fmt j ws st = Inl err'))"
proof (intro conjI impI)
  assume a: "lookup_satellite e (Satellite v) = Inl ValueError
       \<or> (\<exists>sat. lookup_satellite e (Satellite v) = Inr sat
              \<and> find_events e sat (clock i) (clock i + 1) = Inl ValueError)"
  then show g: "get_next_passes e (clock i) (Satellite v) N = Inr []"
    by (rule get_next_passes_fallback)
  show "transit_loop e clock N i (v # vs) transit_list
         = transit_loop e clock N (Suc i) vs (transit_list @ [(0, 0, 0, Satellite v)])"
    by (simp add: g Let_def)
next
  assume a: "lookup_satellite e (Satellite v) = Inl ValueError"
  then show g: "get_alt_azimuth e (clock i) (Satellite v) = Inr (Angle 0, Angle 0, Some 0)"
    by (rule get_alt_azimuth_fallback)
  show "up_positions_loop e clock selected mhz fmt i (v # vs) (up_positions, doppler)
           = up_positions_loop e clock selected mhz fmt (Suc i) vs (up_positions, doppler)"
    by (simp add: g Let_def)
next
  assume "err \<noteq> ValueError
        \<and> (lookup_satellite e name = Inl err
           \<or> (\<exists>sat. lookup_satellite e name = Inr sat
                  \<and> find_events e sat now_ts (now_ts + 1) = Inl err))"
  then show "get_next_passes e now_ts name N = Inl err"
    using get_next_passes_raises [of err e name now_ts N] by blast
next
  assume "(lookup_satellite e name = Inl err \<and> err \<noteq> ValueError)
        \<or> (\<exists>sat. lookup_satellite e name = Inr sat \<and> difference_at e sat t = Inl err)"
  then show "get_alt_azimuth e t name = Inl err"
    by (rule get_alt_azimuth_raises)
next
  assume "k < length ws
        \<and> get_next_passes e (clock (j + k)) (Satellite (ws ! k)) N = Inl err"
  then show "\<exists>err'. transit_loop e clock N j ws transit_list = Inl err'"
    using transit_loop_aborts [of k ws e clock j N err transit_list] by blast
next
  let ?vs = "satellites_filtered_by_check_boxes e gui False"
  assume "k < length ?vs \<and> get_next_passes e (clock k) (Satellite (?vs ! k)) N = Inl err"
  then have "\<exists>err'. transit_loop e clock N 0 ?vs [] = Inl err'"
    using transit_loop_aborts [of k ?vs e clock 0 N err "[]"] by simp
  then show "\<exists>err'. transit_list_sorted_by_time e gui clock N = Inl err'"
    by (auto simp: transit_list_sorted_by_time_def)
next
  assume "k < length ws
        \<and> get_alt_azimuth e (clock (j + k)) (Satellite (ws ! k)) = Inl err"
  then show "\<exists>err'. up_positions_loop e clock selected mhz fmt j ws st = Inl err'"
    using up_positions_loop_aborts [of k ws e clock j err selected mhz fmt st] by blast
qed


theorem only_ValueError_is_caught_locally_witness:
  "transit_loop demo_env demo_clock 1 0 [demo_sat ''BAD'' ''x'', demo_sat ''GEO'' ''3''] []
     = Inr [(0, 0, 0, ''BAD''), (0, 0, 0, ''GEO'')]
   \<and> up_positions_loop demo_env demo_clock ''ISS'' (Some 145.9) demo_fmt 0
        [demo_sat ''BAD'' ''x'', demo_sat ''GEO'' ''3''] ([], []) = Inr ([], [])
   \<and> get_next_passes (failing_env OtherError) (demo_clock 0) ''AO-7'' 1 = Inl OtherError
   \<and> get_alt_azimuth (failing_env ValueError) (demo_clock 0) ''AO-7'' = Inl ValueError
   \<and> (\<exists>err'. transit_list_sorted_by_time (failing_env OtherError) demo_gui demo_clock 1
                = Inl err')
   \<and> (\<exists>err'. up_positions_loop (failing_env ValueError) demo_clock ''ISS'' (Some 145.9) demo_fmt 0
                  [demo_sat ''GEO'' ''3'', demo_sat ''AO-7'' ''1''] ([], []) = Inl err')"
proof -
  note A = only_ValueError_is_caught_locally [where e = demo_env and v = "demo_sat ''BAD'' ''x''"
      and clock = demo_clock and i = 0 and N = 1 and vs = "[demo_sat ''GEO'' ''3'']"
      and transit_list = "[]" and selected = "''ISS''" and mhz = "Some 145.9" and fmt = demo_fmt
      and up_positions = "[]" and doppler = "[]"]
  have bad: "lookup_satellite demo_env (Satellite (demo_sat ''BAD'' ''x'')) = Inl ValueError"
    by (simp add: demo_simps)
  have rest1: "transit_loop demo_env demo_clock 1 (Suc 0) [demo_sat ''GEO'' ''3'']
      ([] @ [(0, 0, 0, Satellite (demo_sat ''BAD'' ''x''))]) = Inr [(0, 0, 0, ''BAD''), (0, 0, 0, ''GEO'')]"
    by (simp add: demo_simps demo_clock_def)
  have rest2: "up_positions_loop demo_env demo_clock ''ISS'' (Some 145.9) demo_fmt (Suc 0)
        [demo_sat ''GEO'' ''3''] ([], []) = Inr ([], [])"
    by (simp add: demo_simps demo_clock_def get_alt_azimuth_def)
  have w1: "transit_loop demo_env demo_clock 1 0 [demo_sat ''BAD'' ''x'', demo_sat ''GEO'' ''3''] []
     = Inr [(0, 0, 0, ''BAD''), (0, 0, 0, ''GEO'')]"
    using A [THEN conjunct1, THEN mp, OF disjI1 [OF bad]] rest1 by simp
  have w2: "up_positions_loop demo_env demo_clock ''ISS'' (Some 145.9) demo_fmt 0
        [demo_sat ''BAD'' ''x'', demo_sat ''GEO'' ''3''] ([], []) = Inr ([], [])"
    using A [THEN conjunct2, THEN conjunct1, THEN mp, OF bad] rest2 by simp
  note B = only_ValueError_is_caught_locally [where e = "failing_env OtherError"
      and err = OtherError and name = "''AO-7''" and now_ts = "demo_clock 0" and N = 1]
  have hb: "OtherError \<noteq> ValueError
        \<and> (lookup_satellite (failing_env OtherError) ''AO-7'' = Inl OtherError
           \<or> (\<exists>sat. lookup_satellite (failing_env OtherError) ''AO-7'' = Inr sat
                  \<and> find_events (failing_env OtherError) sat (demo_clock 0) (demo_clock 0 + 1)
                       = Inl OtherError))"
    by (simp add: failing_env_def demo_simps)
  have w3: "get_next_passes (failing_env OtherError) (demo_clock 0) ''AO-7'' 1 = Inl OtherError"
    by (rule B [THEN conjunct2, THEN conjunct2, THEN conjunct1, THEN mp, OF hb])
  note C = only_ValueError_is_caught_locally [where e = "failing_env ValueError"
      and err = ValueError and name = "''AO-7''" and t = "demo_clock 0"]
  have hc: "(lookup_satellite (failing_env ValueError) ''AO-7'' = Inl ValueError
          \<and> ValueError \<noteq> ValueError)
        \<or> (\<exists>sat. lookup_satellite (failing_env ValueError) ''AO-7'' = Inr sat
               \<and> difference_at (failing_env ValueError) sat (demo_clock 0) = Inl ValueError)"
    by (simp add: failing_env_def demo_simps)
  have w4: "get_alt_azimuth (failing_env ValueError) (demo_clock 0) ''AO-7'' = Inl ValueError"
    by (rule C [THEN conjunct2, THEN conjunct2, THEN conjunct2, THEN conjunct1, THEN mp, OF hc])
  note D = only_ValueError_is_caught_locally [where e = "failing_env OtherError"
      and err = OtherError and gui = demo_gui and clock = demo_clock and k = 0 and N = 1]
  have hd: "0 < length (satellites_filtered_by_check_boxes (failing_env OtherError) demo_gui False)
        \<and> get_next_passes (failing_env OtherError) (demo_clock 0)
             (Satellite (satellites_filtered_by_check_boxes (failing_env OtherError) demo_gui False ! 0)) 1
            = Inl OtherError"
    by (simp add: failing_env_def transit_simps demo_simps)
  have w5: "\<exists>err'. transit_list_sorted_by_time (failing_env OtherError) demo_gui demo_clock 1
                = Inl err'"
    by (rule D [THEN conjunct2, THEN conjunct2, THEN conjunct2, THEN conjunct2, THEN conjunct2,
          THEN conjunct1, THEN mp, OF hd])
  note E = only_ValueError_is_caught_locally [where e = "failing_env ValueError"
      and err = ValueError and clock = demo_clock and j = 0 and k = 1
      and ws = "[demo_sat ''GEO'' ''3'', demo_sat ''AO-7'' ''1'']" and selected = "''ISS''"
      and mhz = "Some 145.9" and fmt = demo_fmt and st = "([], [])"]
  have he: "1 < length [demo_sat ''GEO'' ''3'', demo_sat ''AO-7'' ''1'']
        \<and> get_alt_azimuth (failing_env ValueError) (demo_clock (0 + 1))
             (Satellite ([demo_sat ''GEO'' ''3'', demo_sat ''AO-7'' ''1''] ! 1)) = Inl ValueError"
    by (simp add: failing_env_def demo_simps get_alt_azimuth_def)
  have w6: "\<exists>err'. up_positions_loop (failing_env ValueError) demo_clock ''ISS'' (Some 145.9) demo_fmt 0
                  [demo_sat ''GEO'' ''3'', demo_sat ''AO-7'' ''1''] ([], []) = Inl err'"
    by (rule E [THEN conjunct2, THEN conjunct2, THEN conjunct2, THEN conjunct2, THEN conjunct2,
          THEN conjunct2, THEN mp, OF he])
  from w1 w2 w3 w4 w5 w6 show ?thesis
    by (intro conjI)
qed


text \<open>
  C9, as stated, fails. The transform calls of \<^verbatim>\<open>get_alt_azimuth\<close> are outside its
  \<^verbatim>\<open>try\<close> block, so a failure of the transform, even a ValueError, leaves the method
  and ends the loop of \<^verbatim>\<open>on_auto_update_timer\<close>; and \<^verbatim>\<open>get_next_passes\<close> catches
  ValueError only, so any other error of the event search ends
  \<^verbatim>\<open>transit_list_sorted_by_time\<close>.
\<close>

theorem transform_failure_aborts_batch_counterexample:
  "get_alt_azimuth (failing_env ValueError) (demo_clock 0) ''AO-7'' = Inl ValueError
   \<and> up_positions_loop (failing_env ValueError) demo_clock ''ISS'' (Some 145.9) demo_fmt 0
        (satellites_filtered_by_check_boxes (failing_env ValueError) demo_gui False) ([], '''')
       = Inl ValueError
   \<and> get_next_passes (failing_env OtherError) (demo_clock 0) ''AO-7'' 1 = Inl OtherError
   \<and> transit_list_sorted_by_time (failing_env OtherError) demo_gui demo_clock 1 = Inl OtherError"
  by (simp add: failing_env_def transit_simps demo_simps demo_clock_def get_alt_azimuth_def)

subsection \<open>Evaluating the float arithmetic\<close>

lemma binade_eqI:
  assumes "2 powi e \<le> \<bar>x\<bar>" and "\<bar>x\<bar> < 2 powi (e + 1)"
  shows "binade x = e"
proof -
  have "(0::real) < 2 powi e"
    by simp
  with assms(1) have pos: "0 < \<bar>x\<bar>"
    by linarith
  have "(2::real) powr of_int k = 2 powi k" for k
    by (simp add: powr_real_of_int power_int_def power_inverse inverse_eq_divide power_one_over)
  then have "2 powr of_int e \<le> \<bar>x\<bar> \<and> \<bar>x\<bar> < 2 powr (of_int e + 1)"
    using assms by (metis of_int_1 of_int_add)
  then show ?thesis
    unfolding binade_def using pos floor_log_eq_powr_iff [of "\<bar>x\<bar>" 2 e] by simp
qed

lemma round_double_eval:
  assumes "2 powi e \<le> \<bar>x\<bar>" and "\<bar>x\<bar> < 2 powi (e + 1)"
  shows "round_double x = of_int (round_half_even (x / 2 powi (e - 52))) * 2 powi (e - 52)"
proof -
  have "(0::real) < 2 powi e"
    by simp
  with assms(1) have "0 < \<bar>x\<bar>"
    by linarith
  then have "x \<noteq> 0"
    by auto
  then show ?thesis
    by (simp add: round_double_def binade_eqI [OF assms] Let_def)
qed

lemmas float_eval = power_int_minus inverse_eq_divide round_half_even_def Let_def

lemma JULIAN_SEC_value: "JULIAN_SEC = 6832127434707241 / 2 ^ 69"
  unfolding JULIAN_SEC_def float_div_def
  by (subst round_double_eval [where e = "-17"]) (simp_all add: float_eval)

lemma step_30: "float_mul JULIAN_SEC 30 = 6405119470038038 / 2 ^ 64"
  unfolding JULIAN_SEC_value float_mul_def
  by (subst round_double_eval [where e = "-12"]) (simp_all add: float_eval)

lemma sample_time_0: "sample_time rise_tt interval 0 = rise_tt"
  by (simp add: sample_time_def)

lemma sample_time_Suc:
  "sample_time rise_tt interval (Suc k)
     = float_add (sample_time rise_tt interval k) (float_mul JULIAN_SEC interval)"
  by (simp add: sample_time_def)

lemma sample_time_shift:
  "sample_time rise_tt interval (Suc k)
     = sample_time (float_add rise_tt (float_mul JULIAN_SEC interval)) interval k"
  unfolding sample_time_def funpow_Suc_right by simp

lemma sample_30_1: "sample_time 0 30 (Suc 0) = 6405119470038038 / 2 ^ 64"
  unfolding sample_time_Suc sample_time_0 step_30 float_add_def
  by (subst round_double_eval [where e = "-12"]) (simp_all add: float_eval)

lemma sample_30_2: "sample_time 0 30 (Suc (Suc 0)) = 6405119470038038 / 2 ^ 63"
  unfolding sample_time_Suc [of _ _ "Suc 0"] sample_30_1 step_30 float_add_def
  by (subst round_double_eval [where e = "-11"]) (simp_all add: float_eval)

lemma sample_30_3: "sample_time 0 30 (Suc (Suc (Suc 0))) = 4803839602528528 / 2 ^ 62"
  unfolding sample_time_Suc [of _ _ "Suc (Suc 0)"] sample_30_2 step_30 float_add_def
  by (subst round_double_eval [where e = "-10"]) (simp_all add: float_eval)

lemma float_60_s: "float_div 60 86400 = 6405119470038039 / 2 ^ 63"
  unfolding float_div_def
  by (subst round_double_eval [where e = "-11"]) (simp_all add: float_eval)


subsection \<open>Sampling a pass\<close>

lemma pass_line_loop_steps:
  assumes "\<forall>k<m. sample_time t interval k < setting_tt"
    and "setting_tt \<le> sample_time t interval m"
    and "\<forall>k<m. get_alt_azimuth e (sample_time t interval k) sat = Inr (obs k)"
  shows "pass_line_loop e hms sat setting_tt interval colour tep t pn pl cal =
     Some (Inr (pl @ map (\<lambda>k. make_point hms colour tep (obs k)
                                (sample_time t interval k) (pn + int k)) [0..<m],
                if m = 0 then cal else Some (sample_time t interval (m - 1))))"
  using assms
proof (induction m arbitrary: t pn pl cal obs)
  case 0
  then have "\<not> t < setting_tt" by (simp add: sample_time_0)
  then show ?case
    by (subst pass_line_loop.simps) simp
next
  case (Suc m)
  let ?t' = "float_add t (float_mul JULIAN_SEC interval)"
  from Suc.prems(1) have "sample_time t interval 0 < setting_tt"
    by blast
  then have lt: "t < setting_tt"
    by (simp add: sample_time_0)
  from Suc.prems(3) have "get_alt_azimuth e (sample_time t interval 0) sat = Inr (obs 0)"
    by blast
  then have ob: "get_alt_azimuth e t sat = Inr (obs 0)"
    by (simp add: sample_time_0)
  have p1: "\<forall>k<m. sample_time ?t' interval k < setting_tt"
    using Suc.prems(1) by (simp add: sample_time_shift [symmetric])
  have p2: "setting_tt \<le> sample_time ?t' interval m"
    using Suc.prems(2) by (simp add: sample_time_shift [symmetric])
  have p3: "\<forall>k<m. get_alt_azimuth e (sample_time ?t' interval k) sat = Inr ((obs \<circ> Suc) k)"
    using Suc.prems(3) by (simp add: sample_time_shift [symmetric])
  obtain alt az velocity where o0: "obs 0 = (alt, az, velocity)"
    by (cases "obs 0")
  have step: "pass_line_loop e hms sat setting_tt interval colour tep t pn pl cal =
      pass_line_loop e hms sat setting_tt interval colour tep ?t' (pn + 1)
        (pl @ [make_point hms colour tep (obs 0) t pn]) (Some t)"
    by (subst pass_line_loop.simps) (simp add: lt ob o0 make_point_def)
  have lists: "(pl @ [make_point hms colour tep (obs 0) t pn])
       @ map (\<lambda>k. make_point hms colour tep ((obs \<circ> Suc) k) (sample_time ?t' interval k) (pn + 1 + int k)) [0..<m]
     = pl @ map (\<lambda>k. make_point hms colour tep (obs k) (sample_time t interval k) (pn + int k)) [0..<Suc m]"
    unfolding map_upt_Suc [of _ m] sample_time_shift by (simp add: add.assoc sample_time_0)
  have cal': "(if m = 0 then Some t else Some (sample_time ?t' interval (m - 1)))
      = Some (sample_time t interval (Suc m - 1))"
    by (cases m) (simp_all add: sample_time_0 sample_time_shift)
  show ?case
    unfolding step Suc.IH [OF p1 p2 p3] lists cal' by simp
qed

text \<open>A loop that returns has reached the set time or met an observation that failed.\<close>

lemma pass_line_loop_returns:
  assumes "pass_line_loop e hms sat setting_tt interval colour tep t pn pl cal = Some y"
  shows "(\<exists>k. \<not> sample_time t interval k < setting_tt)
       \<or> (\<exists>k err. get_alt_azimuth e (sample_time t interval k) sat = Inl err)"
proof (rule pass_line_loop.raw_induct
    [where P = "\<lambda>e hms sat setting_tt interval colour tep t pn pl cal y.
       (\<exists>k. \<not> sample_time t interval k < setting_tt)
       \<or> (\<exists>k err. get_alt_azimuth e (sample_time t interval k) sat = Inl err)",
     OF _ assms], goal_cases)
  case (1 loop e hms sat setting_tt interval colour tep t pn pl cal y)
  let ?t' = "float_add t (float_mul JULIAN_SEC interval)"
  show ?case
  proof (cases "t < setting_tt")
    case False
    then have "\<not> sample_time t interval 0 < setting_tt"
      by (simp add: sample_time_0)
    then show ?thesis by blast
  next
    case True
    show ?thesis
    proof (cases "get_alt_azimuth e t sat")
      case (Inl err)
      then have "get_alt_azimuth e (sample_time t interval 0) sat = Inl err"
        by (simp add: sample_time_0)
      then show ?thesis by blast
    next
      case (Inr ob)
      obtain alt az velocity where ob: "ob = (alt, az, velocity)"
        by (cases ob)
      from 1(2) True Inr ob obtain pn' pl' cal' where
        "loop e hms sat setting_tt interval colour tep ?t' pn' pl' cal' = Some y"
        by auto
      from 1(1) [OF this]
      have "(\<exists>k. \<not> sample_time ?t' interval k < setting_tt)
          \<or> (\<exists>k err. get_alt_azimuth e (sample_time ?t' interval k) sat = Inl err)" .
      then show ?thesis
        unfolding sample_time_shift [symmetric] by blast
    qed
  qed
qed

lemma pass_line_loop_diverges:
  assumes "\<forall>k. sample_time t interval k < setting_tt"
    and "\<forall>k. \<exists>ob. get_alt_azimuth e (sample_time t interval k) sat = Inr ob"
  shows "pass_line_loop e hms sat setting_tt interval colour tep t pn pl cal = None"
proof (cases "pass_line_loop e hms sat setting_tt interval colour tep t pn pl cal")
  case None
  then show ?thesis .
next
  case (Some y)
  from pass_line_loop_returns [OF this] assms show ?thesis
    by (metis sum.distinct(1))
qed


lemma pass_line_loop_raises:
  assumes "\<forall>k<m. sample_time t interval k < setting_tt"
    and "\<forall>k<m. \<exists>ob. get_alt_azimuth e (sample_time t interval k) sat = Inr ob"
    and "sample_time t interval m < setting_tt"
    and "get_alt_azimuth e (sample_time t interval m) sat = Inl err"
  shows "pass_line_loop e hms sat setting_tt interval colour tep t pn pl cal = Some (Inl err)"
  using assms
proof (induction m arbitrary: t pn pl cal)
  case 0
  then show ?case
    by (subst pass_line_loop.simps) (simp add: sample_time_0)
next
  case (Suc m)
  let ?t' = "float_add t (float_mul JULIAN_SEC interval)"
  from Suc.prems(1) have "sample_time t interval 0 < setting_tt"
    by blast
  then have lt: "t < setting_tt"
    by (simp add: sample_time_0)
  from Suc.prems(2) have "\<exists>ob. get_alt_azimuth e (sample_time t interval 0) sat = Inr ob"
    by blast
  then obtain alt az velocity where ob: "get_alt_azimuth e t sat = Inr (alt, az, velocity)"
    by (auto simp: sample_time_0)
  have p1: "\<forall>k<m. sample_time ?t' interval k < setting_tt"
    using Suc.prems(1) by (simp add: sample_time_shift [symmetric])
  have p2: "\<forall>k<m. \<exists>ob. get_alt_azimuth e (sample_time ?t' interval k) sat = Inr ob"
    using Suc.prems(2) by (simp add: sample_time_shift [symmetric])
  have p3: "sample_time ?t' interval m < setting_tt"
    using Suc.prems(3) by (simp add: sample_time_shift [symmetric])
  have p4: "get_alt_azimuth e (sample_time ?t' interval m) sat = Inl err"
    using Suc.prems(4) by (simp add: sample_time_shift [symmetric])
  show ?case
    by (subst pass_line_loop.simps) (simp add: lt ob Suc.IH [OF p1 p2 p3 p4])
qed

lemma create_pass_line_returns:
  assumes "\<forall>k<n. sample_time rise_tt interval k < setting_tt
             \<and> get_alt_azimuth e (sample_time rise_tt interval k) sat = Inr (obs k)"
    and "setting_tt \<le> sample_time rise_tt interval n"
  shows "\<exists>pass_line.
      create_pass_line e hms sat rise_tt setting_tt interval colour text_every_point
        = Some (Inr pass_line)
    \<and> length pass_line = n
    \<and> (\<forall>k<n. pt_alt (pass_line ! k) = degrees (fst (obs k))
             \<and> pt_az (pass_line ! k) = radians (fst (snd (obs k))))
    \<and> (text_every_point \<noteq> 0 \<and> 0 < n \<longrightarrow>
          pt_text (last pass_line) = hms (sample_time rise_tt interval (n - 1)))"
proof -
  let ?f = "\<lambda>k. make_point hms colour text_every_point (obs k)
               (sample_time rise_tt interval k) (0 + int k)"
  let ?pl = "map ?f [0..<n]"
  let ?last = "(?pl ! (n - 1))\<lparr>pt_text := hms (sample_time rise_tt interval (n - 1))\<rparr>"
  let ?res = "if text_every_point \<noteq> 0 \<and> 0 < n then ?pl[n - 1 := ?last] else ?pl"
  from assms(1) have a1: "\<forall>k<n. sample_time rise_tt interval k < setting_tt"
    and a3: "\<forall>k<n. get_alt_azimuth e (sample_time rise_tt interval k) sat = Inr (obs k)"
    by blast+
  have loop: "pass_line_loop e hms sat setting_tt interval colour text_every_point rise_tt 0 [] None
      = Some (Inr ([] @ ?pl, if n = 0 then None else Some (sample_time rise_tt interval (n - 1))))"
    by (rule pass_line_loop_steps [OF a1 assms(2) a3])
  have run: "create_pass_line e hms sat rise_tt setting_tt interval colour text_every_point
      = Some (Inr ?res)"
    by (cases "n = 0") (simp_all add: create_pass_line_def loop)
  have len: "length ?res = n"
    by simp
  have nth: "pt_alt (?res ! k) = degrees (fst (obs k)) \<and> pt_az (?res ! k) = radians (fst (snd (obs k)))"
    if "k < n" for k
    using that by (cases "k = n - 1") (simp_all add: make_point_def nth_list_update)
  have lst: "pt_text (last ?res) = hms (sample_time rise_tt interval (n - 1))"
    if "text_every_point \<noteq> 0 \<and> 0 < n"
  proof -
    from that have "?res \<noteq> []"
      by simp
    then have "last ?res = ?res ! (length ?res - 1)"
      by (rule last_conv_nth)
    then have "last ?res = ?res ! (n - 1)"
      by (simp only: len)
    then show ?thesis
      using that by simp
  qed
  define res where "res = ?res"
  have r1: "create_pass_line e hms sat rise_tt setting_tt interval colour text_every_point
      = Some (Inr res)"
    unfolding res_def by (rule run)
  have r2: "length res = n"
    unfolding res_def by (rule len)
  have r3: "\<forall>k<n. pt_alt (res ! k) = degrees (fst (obs k))
             \<and> pt_az (res ! k) = radians (fst (snd (obs k)))"
    using nth unfolding res_def by blast
  have r4: "text_every_point \<noteq> 0 \<and> 0 < n \<longrightarrow>
          pt_text (last res) = hms (sample_time rise_tt interval (n - 1))"
    using lst unfolding res_def by blast
  from r1 r2 r3 r4 show ?thesis
    by blast
qed

lemma create_pass_line_diverges:
  assumes "\<forall>k. sample_time rise_tt interval k < setting_tt
             \<and> (\<exists>ob. get_alt_azimuth e (sample_time rise_tt interval k) sat = Inr ob)"
  shows "create_pass_line e hms sat rise_tt setting_tt interval colour text_every_point = None"
proof -
  from assms have "\<forall>k. sample_time rise_tt interval k < setting_tt"
    and "\<forall>k. \<exists>ob. get_alt_azimuth e (sample_time rise_tt interval k) sat = Inr ob"
    by blast+
  then have "pass_line_loop e hms sat setting_tt interval colour text_every_point rise_tt 0 [] None
      = None"
    by (rule pass_line_loop_diverges)
  then show ?thesis
    by (simp add: create_pass_line_def)
qed

text \<open>What a line that was returned holds.\<close>

lemma create_pass_line_result:
  assumes run: "create_pass_line e hms sat rise_tt setting_tt interval colour text_every_point
      = Some (Inr pass_line)"
  shows "(\<forall>k<length pass_line.
            sample_time rise_tt interval k < setting_tt
          \<and> (\<exists>alt az velocity.
                get_alt_azimuth e (sample_time rise_tt interval k) sat = Inr (alt, az, velocity)
              \<and> pt_alt (pass_line ! k) = degrees alt \<and> pt_az (pass_line ! k) = radians az))
       \<and> setting_tt \<le> sample_time rise_tt interval (length pass_line)"
proof -
  let ?S = "sample_time rise_tt interval"
  let ?stop = "\<lambda>k. \<not> ?S k < setting_tt \<or> (\<exists>err. get_alt_azimuth e (?S k) sat = Inl err)"
  from run obtain y where
    "pass_line_loop e hms sat setting_tt interval colour text_every_point rise_tt 0 [] None = Some y"
    by (auto simp: create_pass_line_def split: option.splits)
  from pass_line_loop_returns [OF this] have "\<exists>k. ?stop k"
    by blast
  then obtain n where n: "?stop n" and least: "\<forall>k<n. \<not> ?stop k"
    using exists_least_iff [of ?stop] by blast
  define obs where "obs k = (case get_alt_azimuth e (?S k) sat of Inr ob \<Rightarrow> ob)" for k
  have before: "\<forall>k<n. ?S k < setting_tt \<and> get_alt_azimuth e (?S k) sat = Inr (obs k)"
  proof (intro allI impI)
    fix k assume "k < n"
    with least have "?S k < setting_tt" and "\<nexists>err. get_alt_azimuth e (?S k) sat = Inl err"
      by blast+
    then show "?S k < setting_tt \<and> get_alt_azimuth e (?S k) sat = Inr (obs k)"
      by (cases "get_alt_azimuth e (?S k) sat") (simp_all add: obs_def)
  qed
  have reached: "setting_tt \<le> ?S n"
  proof (rule ccontr)
    assume "\<not> setting_tt \<le> ?S n"
    then have lt: "?S n < setting_tt"
      by simp
    with n obtain err where "get_alt_azimuth e (?S n) sat = Inl err"
      by blast
    with before lt have "pass_line_loop e hms sat setting_tt interval colour text_every_point
        rise_tt 0 [] None = Some (Inl err)"
      by (intro pass_line_loop_raises [where m = n]) blast+
    with run show False
      by (simp add: create_pass_line_def)
  qed
  from create_pass_line_returns [OF before reached, of hms colour text_every_point] run
  have len: "length pass_line = n"
    and nth: "\<forall>k<n. pt_alt (pass_line ! k) = degrees (fst (obs k))
                  \<and> pt_az (pass_line ! k) = radians (fst (snd (obs k)))"
    by auto
  have "?S k < setting_tt
      \<and> (\<exists>alt az velocity. get_alt_azimuth e (?S k) sat = Inr (alt, az, velocity)
            \<and> pt_alt (pass_line ! k) = degrees alt \<and> pt_az (pass_line ! k) = radians az)"
    if "k < length pass_line" for k
  proof -
    from that len have k: "k < n" by simp
    obtain alt az velocity where o: "obs k = (alt, az, velocity)"
      by (cases "obs k")
    from before k o nth show ?thesis
      by auto
  qed
  with reached len show ?thesis
    by blast
qed


text \<open>
  C2, amended. For a rise time strictly before the set time, the points of the line that
  \<^verbatim>\<open>create_pass_line\<close> returns are the observations at the sample times
  \<open>t\<^sub>0 = rise\<close>, \<open>t\<^sub>k\<^sub>+\<^sub>1 = t\<^sub>k + step\<close> in float arithmetic, one point for each, and every
  sample time is strictly before the set time: the set time itself is not sampled. The
  line is not empty, it ends with the last sample time before the set time (the next one
  is at or after it), and the last point carries the time text when texts are asked for.
  The call returns such a line as soon as a sample time reaches the set time, all
  observations before it succeeding; when no sample time ever reaches it, which happens
  with a positive step that the rounding of the sum absorbs, the call does not return.
\<close>

theorem pass_line_stops_before_set_time:
  assumes "rise_tt < setting_tt"
  shows
    "(create_pass_line e hms sat rise_tt setting_tt interval colour text_every_point
        = Some (Inr pass_line) \<longrightarrow>
        0 < length pass_line
      \<and> sample_time rise_tt interval 0 = rise_tt
      \<and> (\<forall>k<length pass_line.
            sample_time rise_tt interval k < setting_tt
          \<and> (\<exists>alt az velocity.
                get_alt_azimuth e (sample_time rise_tt interval k) sat = Inr (alt, az, velocity)
              \<and> pt_alt (pass_line ! k) = degrees alt \<and> pt_az (pass_line ! k) = radians az))
      \<and> setting_tt \<le> sample_time rise_tt interval (length pass_line)
      \<and> (text_every_point \<noteq> 0 \<longrightarrow>
            pt_text (last pass_line)
              = hms (sample_time rise_tt interval (length pass_line - 1))))
   \<and> ((\<forall>k<n. sample_time rise_tt interval k < setting_tt
              \<and> get_alt_azimuth e (sample_time rise_tt interval k) sat = Inr (obs k))
        \<and> setting_tt \<le> sample_time rise_tt interval n \<longrightarrow>
        (\<exists>line. create_pass_line e hms sat rise_tt setting_tt interval colour text_every_point
                  = Some (Inr line) \<and> length line = n))
   \<and> ((\<forall>k. sample_time rise_tt interval k < setting_tt
            \<and> (\<exists>ob. get_alt_azimuth e (sample_time rise_tt interval k) sat = Inr ob)) \<longrightarrow>
        create_pass_line e hms sat rise_tt setting_tt interval colour text_every_point = None)"
proof (intro conjI impI)
  let ?S = "sample_time rise_tt interval"
  assume run: "create_pass_line e hms sat rise_tt setting_tt interval colour text_every_point
        = Some (Inr pass_line)"
  note res = create_pass_line_result [OF run]
  from res have reached: "setting_tt \<le> ?S (length pass_line)"
    by blast
  show len: "0 < length pass_line"
  proof (rule ccontr)
    assume "\<not> 0 < length pass_line"
    with reached have "setting_tt \<le> rise_tt"
      by (simp add: sample_time_0)
    with assms show False
      by simp
  qed
  show "?S 0 = rise_tt"
    by (rule sample_time_0)
  from res show "\<forall>k<length pass_line.
            ?S k < setting_tt
          \<and> (\<exists>alt az velocity.
                get_alt_azimuth e (?S k) sat = Inr (alt, az, velocity)
              \<and> pt_alt (pass_line ! k) = degrees alt \<and> pt_az (pass_line ! k) = radians az)"
    by blast
  from reached show "setting_tt \<le> ?S (length pass_line)" .
  assume tep: "text_every_point \<noteq> 0"
  define ob where "ob k = (case get_alt_azimuth e (?S k) sat of Inr x \<Rightarrow> x)" for k
  have before: "\<forall>k<length pass_line. ?S k < setting_tt \<and> get_alt_azimuth e (?S k) sat = Inr (ob k)"
    using res by (auto simp: ob_def)
  from create_pass_line_returns [OF before reached, of hms colour text_every_point] run tep len
  show "pt_text (last pass_line) = hms (?S (length pass_line - 1))"
    by auto
next
  assume "(\<forall>k<n. sample_time rise_tt interval k < setting_tt
              \<and> get_alt_azimuth e (sample_time rise_tt interval k) sat = Inr (obs k))
        \<and> setting_tt \<le> sample_time rise_tt interval n"
  then have a: "\<forall>k<n. sample_time rise_tt interval k < setting_tt
              \<and> get_alt_azimuth e (sample_time rise_tt interval k) sat = Inr (obs k)"
    and b: "setting_tt \<le> sample_time rise_tt interval n"
    by blast+
  from create_pass_line_returns [OF a b, of hms colour text_every_point]
  show "\<exists>line. create_pass_line e hms sat rise_tt setting_tt interval colour text_every_point
                  = Some (Inr line) \<and> length line = n"
    by blast
next
  assume "\<forall>k. sample_time rise_tt interval k < setting_tt
            \<and> (\<exists>ob. get_alt_azimuth e (sample_time rise_tt interval k) sat = Inr ob)"
  then show "create_pass_line e hms sat rise_tt setting_tt interval colour text_every_point = None"
    by (rule create_pass_line_diverges)
qed

lemma demo_get_alt_azimuth:
  "get_alt_azimuth demo_env t ''AO-7'' = Inr (Angle (86400 * t), Angle 0, Some 3)"
proof -
  have "linalg_norm (3, 4, 0) = 5"
    by (simp add: linalg_norm_def sqrt_25)
  then show ?thesis
    by (simp add: get_alt_azimuth_def demo_simps slant_velocity_km_s_def dot_def)
qed

lemma less_2_all: "(\<forall>k<2. P k) \<longleftrightarrow> P 0 \<and> P (Suc 0)"
  by (auto simp: less_Suc_eq numeral_2_eq_2)

lemma less_3_all: "(\<forall>k<3. P k) \<longleftrightarrow> P 0 \<and> P (Suc 0) \<and> P (Suc (Suc 0))"
  by (auto simp: less_Suc_eq numeral_3_eq_3)

lemma sample_30_2': "sample_time 0 30 2 = 6405119470038038 / 2 ^ 63"
  using sample_30_2 by (simp add: numeral_2_eq_2)

lemma sample_30_3': "sample_time 0 30 3 = 4803839602528528 / 2 ^ 62"
  using sample_30_3 by (simp add: numeral_3_eq_3)

lemma absorbed_step: "float_add 2460000 (float_mul JULIAN_SEC (1 / 131072)) = 2460000"
proof -
  have st: "float_mul JULIAN_SEC (1 / 131072) = 6832127434707241 / 2 ^ 86"
    unfolding JULIAN_SEC_value float_mul_def
    by (subst round_double_eval [where e = "-34"]) (simp_all add: float_eval)
  show ?thesis
    unfolding float_add_def st
    by (subst round_double_eval [where e = "21"]) (simp_all add: float_eval)
qed

lemma absorbed_sample_time: "sample_time 2460000 (1 / 131072) k = 2460000"
  by (induction k) (simp_all add: sample_time_0 sample_time_Suc absorbed_step)

theorem pass_line_stops_before_set_time_witness:
  "(\<exists>line. create_pass_line demo_env demo_hms ''AO-7'' 0 (1 / 2048) 30 ''red'' 4 = Some (Inr line)
       \<and> length line = 2)
   \<and> create_pass_line demo_env demo_hms ''AO-7'' 2460000 2460001 (1 / 131072) ''red'' 4 = None"
proof -
  have a: "(0 :: real) < 1 / 2048" by simp
  have b: "(2460000 :: real) < 2460001" by simp
  have c: "(\<forall>k<2. sample_time 0 30 k < 1 / 2048
              \<and> get_alt_azimuth demo_env (sample_time 0 30 k) ''AO-7''
                   = Inr ((\<lambda>k. (Angle (86400 * sample_time 0 30 k), Angle 0, Some 3)) k))
        \<and> 1 / 2048 \<le> sample_time 0 30 2"
    by (simp add: less_2_all sample_time_0 sample_30_1 sample_30_2' demo_get_alt_azimuth)
  have d: "\<forall>k. sample_time 2460000 (1 / 131072) k < 2460001
            \<and> (\<exists>ob. get_alt_azimuth demo_env (sample_time 2460000 (1 / 131072) k) ''AO-7'' = Inr ob)"
    by (simp add: absorbed_sample_time demo_get_alt_azimuth)
  note t1 = pass_line_stops_before_set_time [OF a, where e = demo_env and hms = demo_hms
      and sat = "''AO-7''" and interval = 30 and colour = "''red''" and text_every_point = 4
      and n = 2 and obs = "\<lambda>k. (Angle (86400 * sample_time 0 30 k), Angle 0, Some 3)"]
  have "\<exists>line. create_pass_line demo_env demo_hms ''AO-7'' 0 (1 / 2048) 30 ''red'' 4 = Some (Inr line)
       \<and> length line = 2"
    by (rule t1 [THEN conjunct2, THEN conjunct1, THEN mp, OF c])
  moreover
  note t2 = pass_line_stops_before_set_time [OF b, where e = demo_env and hms = demo_hms
      and sat = "''AO-7''" and interval = "1 / 131072" and colour = "''red''"
      and text_every_point = 4]
  have "create_pass_line demo_env demo_hms ''AO-7'' 2460000 2460001 (1 / 131072) ''red'' 4 = None"
    by (rule t2 [THEN conjunct2, THEN conjunct2, THEN mp, OF d])
  ultimately show ?thesis
    by blast
qed


lemma demo_line_42_s:
  "create_pass_line demo_env demo_hms ''AO-7'' 0 (1 / 2048) 30 ''red'' 4
     = Some (Inr [\<lparr>pt_alt = 0, pt_az = 0, pt_colour = ''red'', pt_size = 4, pt_text = demo_hms 0\<rparr>,
                  \<lparr>pt_alt = 86400 * (6405119470038038 / 2 ^ 64), pt_az = 0, pt_colour = ''red'',
                    pt_size = 4, pt_text = demo_hms (6405119470038038 / 2 ^ 64)\<rparr>])"
proof -
  let ?obs = "\<lambda>k. (Angle (86400 * sample_time 0 30 k), Angle 0, Some (3 :: real))"
  have "pass_line_loop demo_env demo_hms ''AO-7'' (1 / 2048) 30 ''red'' 4 0 0 [] None
      = Some (Inr ([] @ map (\<lambda>k. make_point demo_hms ''red'' 4 (?obs k) (sample_time 0 30 k)
                                    (0 + int k)) [0..<2],
                   if (2::nat) = 0 then None else Some (sample_time 0 30 (2 - 1))))"
    by (rule pass_line_loop_steps)
       (simp_all add: less_2_all sample_time_0 sample_30_1 sample_30_2' demo_get_alt_azimuth)
  then show ?thesis
    by (simp add: create_pass_line_def make_point_def radians_def sample_time_0 sample_30_1
        numeral_2_eq_2)
qed

lemma demo_line_60_s:
  "create_pass_line demo_env demo_hms ''AO-7'' 0 (float_div 60 86400) 30 ''red'' 0
     = Some (Inr [\<lparr>pt_alt = 0, pt_az = 0, pt_colour = ''red'', pt_size = 4, pt_text = []\<rparr>,
                  \<lparr>pt_alt = 86400 * (6405119470038038 / 2 ^ 64), pt_az = 0, pt_colour = ''red'',
                    pt_size = 4, pt_text = []\<rparr>,
                  \<lparr>pt_alt = 86400 * (6405119470038038 / 2 ^ 63), pt_az = 0, pt_colour = ''red'',
                    pt_size = 4, pt_text = []\<rparr>])"
proof -
  let ?obs = "\<lambda>k. (Angle (86400 * sample_time 0 30 k), Angle 0, Some (3 :: real))"
  have "pass_line_loop demo_env demo_hms ''AO-7'' (float_div 60 86400) 30 ''red'' 0 0 0 [] None
      = Some (Inr ([] @ map (\<lambda>k. make_point demo_hms ''red'' 0 (?obs k) (sample_time 0 30 k)
                                    (0 + int k)) [0..<3],
                   if (3::nat) = 0 then None else Some (sample_time 0 30 (3 - 1))))"
    by (rule pass_line_loop_steps)
       (simp_all add: less_3_all sample_time_0 sample_30_1 sample_30_2 sample_30_3' float_60_s
          demo_get_alt_azimuth)
  then show ?thesis
    by (simp add: create_pass_line_def make_point_def radians_def sample_time_0 sample_30_1
        sample_30_2 numeral_3_eq_3)
qed

text \<open>
  C2, as stated, fails. A pass from 0 to \<open>1 / 2048\<close> day (42.1875 seconds) sampled every 30
  seconds has two points, of the sample times 0 and just under 30 seconds (the altitude
  of the small world is the second of the observation); the point of the set time, with
  altitude 42.1875, is not in the line. A pass that ends at the float \<^verbatim>\<open>60 / 86400\<close> has
  three points, the last just under 60 seconds, and again none at the set time.
\<close>

theorem set_time_point_missing_counterexample:
  "create_pass_line demo_env demo_hms ''AO-7'' 0 (1 / 2048) 30 ''red'' 4
     = Some (Inr [\<lparr>pt_alt = 0, pt_az = 0, pt_colour = ''red'', pt_size = 4, pt_text = demo_hms 0\<rparr>,
                  \<lparr>pt_alt = 86400 * (6405119470038038 / 2 ^ 64), pt_az = 0, pt_colour = ''red'',
                    pt_size = 4, pt_text = demo_hms (6405119470038038 / 2 ^ 64)\<rparr>])
   \<and> get_alt_azimuth demo_env (1 / 2048) ''AO-7'' = Inr (Angle (675 / 16), Angle 0, Some 3)
   \<and> 86400 * (6405119470038038 / 2 ^ 64) < (30 :: real)
   \<and> create_pass_line demo_env demo_hms ''AO-7'' 0 (float_div 60 86400) 30 ''red'' 0
     = Some (Inr [\<lparr>pt_alt = 0, pt_az = 0, pt_colour = ''red'', pt_size = 4, pt_text = []\<rparr>,
                  \<lparr>pt_alt = 86400 * (6405119470038038 / 2 ^ 64), pt_az = 0, pt_colour = ''red'',
                    pt_size = 4, pt_text = []\<rparr>,
                  \<lparr>pt_alt = 86400 * (6405119470038038 / 2 ^ 63), pt_az = 0, pt_colour = ''red'',
                    pt_size = 4, pt_text = []\<rparr>])
   \<and> get_alt_azimuth demo_env (float_div 60 86400) ''AO-7''
       = Inr (Angle (86400 * (6405119470038039 / 2 ^ 63)), Angle 0, Some 3)
   \<and> 86400 * (6405119470038038 / 2 ^ 63) < (60 :: real)"
proof (intro conjI)
  show "get_alt_azimuth demo_env (1 / 2048) ''AO-7'' = Inr (Angle (675 / 16), Angle 0, Some 3)"
    by (simp add: demo_get_alt_azimuth)
  show "get_alt_azimuth demo_env (float_div 60 86400) ''AO-7''
       = Inr (Angle (86400 * (6405119470038039 / 2 ^ 63)), Angle 0, Some 3)"
    by (simp add: demo_get_alt_azimuth float_60_s)
qed (simp_all only: demo_line_42_s demo_line_60_s, simp_all)

subsection \<open>The Doppler shift\<close>

lemma demo_observation:
  "get_alt_azimuth demo_env t ''ISS'' = Inr (Angle (86400 * t), Angle 0, Some 3)"
  "get_alt_azimuth approaching_env t ''ISS'' = Inr (Angle (86400 * t), Angle 0, Some (- 3))"
proof -
  have "linalg_norm (3, 4, 0) = 5"
    by (simp add: linalg_norm_def sqrt_25)
  then show "get_alt_azimuth demo_env t ''ISS'' = Inr (Angle (86400 * t), Angle 0, Some 3)"
    and "get_alt_azimuth approaching_env t ''ISS'' = Inr (Angle (86400 * t), Angle 0, Some (- 3))"
    by (simp_all add: get_alt_azimuth_def demo_simps approaching_env_def slant_velocity_km_s_def
        dot_def)
qed

text \<open>
  C1, amended. For the selected satellite above the horizon, with range rate \<open>r\<close> (km/s,
  a number) and a selected carrier of \<open>mhz\<close> MHz, that is of \<open>f = mhz * 10^6\<close> Hz, the loop of
  \<^verbatim>\<open>on_auto_update_timer\<close> sets the Doppler label to the text of \<open>- r / 300000 * f\<close>
  and puts the shifts \<open>- r / 300000 * 145.9e6\<close> and \<open>- r / 300000 * 436.5e6\<close> in the
  text of the satellite's point: the divisor is the program's constant 300000, a rounded
  speed of light in km/s. For a positive carrier frequency a negative range rate
  (approaching) gives a positive shift and a positive range rate (receding) a negative
  one.
\<close>

theorem doppler_shift_of_selected_satellite:
  assumes "get_alt_azimuth e (clock i) (Satellite v) = Inr (alt, az, Some r)"
    and "0 < degrees alt"
    and "Satellite v = selected_satellite"
  shows "up_positions_loop e clock selected_satellite (Some mhz) fmt i [v] (up_positions, doppler)
      = Inr (up_positions @
               [\<lparr>pt_alt = degrees alt, pt_az = radians az, pt_colour = ''grey'', pt_size = 8,
                 pt_text = '' '' @ Satellite v\<rparr>,
                \<lparr>pt_alt = degrees alt, pt_az = radians az, pt_colour = ''black'', pt_size = 8,
                 pt_text = '' '' @ Satellite v @ '': 2: '' @ fmt (Some (- r / 300000 * 145900000))
                   @ '', 70: '' @ fmt (Some (- r / 300000 * 436500000)) @ '' Hz ''\<rparr>],
             fmt (Some (- r / 300000 * (mhz * 1000000))) @ '' Hz'')
     \<and> up_positions_loop e clock selected_satellite (Some mhz) fmt i (v # vs) (up_positions, doppler)
      = up_positions_loop e clock selected_satellite (Some mhz) fmt (Suc i) vs
          (up_positions @
               [\<lparr>pt_alt = degrees alt, pt_az = radians az, pt_colour = ''grey'', pt_size = 8,
                 pt_text = '' '' @ Satellite v\<rparr>,
                \<lparr>pt_alt = degrees alt, pt_az = radians az, pt_colour = ''black'', pt_size = 8,
                 pt_text = '' '' @ Satellite v @ '': 2: '' @ fmt (Some (- r / 300000 * 145900000))
                   @ '', 70: '' @ fmt (Some (- r / 300000 * 436500000)) @ '' Hz ''\<rparr>],
             fmt (Some (- r / 300000 * (mhz * 1000000))) @ '' Hz'')
     \<and> (0 < mhz \<longrightarrow> r < 0 \<longrightarrow> 0 < - r / 300000 * (mhz * 1000000))
     \<and> (0 < mhz \<longrightarrow> 0 < r \<longrightarrow> - r / 300000 * (mhz * 1000000) < 0)"
proof -
  have step: "up_positions_loop e clock selected_satellite (Some mhz) fmt i (v # ws) (up_positions, doppler)
      = up_positions_loop e clock selected_satellite (Some mhz) fmt (Suc i) ws
          (up_positions @
               [\<lparr>pt_alt = degrees alt, pt_az = radians az, pt_colour = ''grey'', pt_size = 8,
                 pt_text = '' '' @ Satellite v\<rparr>,
                \<lparr>pt_alt = degrees alt, pt_az = radians az, pt_colour = ''black'', pt_size = 8,
                 pt_text = '' '' @ Satellite v @ '': 2: '' @ fmt (Some (- r / 300000 * 145900000))
                   @ '', 70: '' @ fmt (Some (- r / 300000 * 436500000)) @ '' Hz ''\<rparr>],
             fmt (Some (- r / 300000 * (mhz * 1000000))) @ '' Hz'')" for ws
    using assms
    by (simp add: Let_def doppler_shift_2m_def doppler_shift_70cm_def selected_doppler_shift_def
        mult.commute)
  have sign1: "0 < mhz \<longrightarrow> r < 0 \<longrightarrow> 0 < - r / 300000 * (mhz * 1000000)"
    by (simp add: zero_less_mult_iff mult_less_0_iff)
  have sign2: "0 < mhz \<longrightarrow> 0 < r \<longrightarrow> - r / 300000 * (mhz * 1000000) < 0"
    by (simp add: zero_less_mult_iff mult_less_0_iff)
  from step [of "[]"] step [of vs] sign1 sign2 show ?thesis
    by simp
qed


theorem doppler_shift_of_selected_satellite_witness:
  "up_positions_loop demo_env demo_clock_up ''ISS'' (Some 145.9) format_hz 0
      [demo_sat ''ISS'' ''2''] ([], [])
     = Inr ([\<lparr>pt_alt = 45, pt_az = 0, pt_colour = ''grey'', pt_size = 8, pt_text = '' ISS''\<rparr>,
             \<lparr>pt_alt = 45, pt_az = 0, pt_colour = ''black'', pt_size = 8,
               pt_text = '' ISS: 2: -1459, 70: -4365 Hz ''\<rparr>],
            ''-1459 Hz'')
   \<and> up_positions_loop approaching_env demo_clock_up ''ISS'' (Some 145.9) format_hz 0
      [demo_sat ''ISS'' ''2''] ([], [])
     = Inr ([\<lparr>pt_alt = 45, pt_az = 0, pt_colour = ''grey'', pt_size = 8, pt_text = '' ISS''\<rparr>,
             \<lparr>pt_alt = 45, pt_az = 0, pt_colour = ''black'', pt_size = 8,
               pt_text = '' ISS: 2: +1459, 70: +4365 Hz ''\<rparr>],
            ''+1459 Hz'')
   \<and> (0 :: real) < - (- 3) / 300000 * (145.9 * 1000000)
   \<and> - 3 / 300000 * (145.9 * 1000000) < (0 :: real)"
proof -
  have o1: "get_alt_azimuth demo_env (demo_clock_up 0) (Satellite (demo_sat ''ISS'' ''2''))
      = Inr (Angle 45, Angle 0, Some 3)"
    by (simp add: demo_observation demo_clock_up_def demo_sat_def)
  have o2: "get_alt_azimuth approaching_env (demo_clock_up 0) (Satellite (demo_sat ''ISS'' ''2''))
      = Inr (Angle 45, Angle 0, Some (- 3))"
    by (simp add: demo_observation demo_clock_up_def demo_sat_def)
  have up: "0 < degrees (Angle 45)"
    by simp
  have sel: "Satellite (demo_sat ''ISS'' ''2'') = ''ISS''"
    by (simp add: demo_sat_def)
  note t = doppler_shift_of_selected_satellite [where clock = demo_clock_up and i = 0
      and v = "demo_sat ''ISS'' ''2''" and mhz = "145.9" and fmt = format_hz
      and up_positions = "[]" and doppler = "[]" and vs = "[]"]
  from t [OF o1 up sel] t [OF o2 up sel]
  show ?thesis
    by (simp add: demo_sat_def radians_def format_hz_def round_half_even_def)
qed

text \<open>
  C1, as stated, fails, since the program does not divide by the speed of light. For a
  satellite receding at 3 km/s and the carrier 436.5 MHz the label reads \<^verbatim>\<open>-4365 Hz\<close>,
  where \<open>- r / c * f\<close> with \<open>c = 299792.458\<close> km/s prints as \<^verbatim>\<open>-4368 Hz\<close>; at 7 km/s
  the two values are more than 7 Hz apart.
\<close>

theorem doppler_shift_speed_of_light_counterexample:
  "up_positions_loop demo_env demo_clock_up ''ISS'' (Some 436.5) format_hz 0
      [demo_sat ''ISS'' ''2''] ([], [])
     = Inr ([\<lparr>pt_alt = 45, pt_az = 0, pt_colour = ''grey'', pt_size = 8, pt_text = '' ISS''\<rparr>,
             \<lparr>pt_alt = 45, pt_az = 0, pt_colour = ''black'', pt_size = 8,
               pt_text = '' ISS: 2: -1459, 70: -4365 Hz ''\<rparr>],
            ''-4365 Hz'')
   \<and> format_hz (Some (- 3 / speed_of_light_km_s * (436.5 * 1000000))) @ '' Hz'' = ''-4368 Hz''
   \<and> doppler_shift_70cm (- 7) = 10185
   \<and> 10185 + 7 < - (- 7) / speed_of_light_km_s * (436.5 * 1000000)"
  by (simp add: demo_observation demo_clock_up_def demo_sat_def radians_def format_hz_def
      round_half_even_def doppler_shift_2m_def doppler_shift_70cm_def selected_doppler_shift_def
      speed_of_light_km_s_def)

end
